theory Spec2Isabelle
  imports Main
begin

section \<open>The stream resource of the ThousandEyes provider\<close>

text \<open>
  A shallow embedding of \<^verbatim>\<open>thousandeyes/resource_stream.go\<close>: the \<^verbatim>\<open>Stream\<close>
  entity and its JSON form, the client derived from a v6 client, the request cycle of
  \<^verbatim>\<open>do\<close> and \<^verbatim>\<open>decodeJSON\<close>, the four CRUD operations and the four resource handlers.

  Go strings are byte sequences, and so is \<^typ>\<open>string\<close> here. Go's \<^verbatim>\<open>int\<close> status code
  is only compared, never computed with, and is an \<^typ>\<open>int\<close>.
\<close>

subsection \<open>UTF-8, as \<^verbatim>\<open>encoding/json\<close> sees strings\<close>

text \<open>
  \<^verbatim>\<open>json.Marshal\<close> coerces every string to valid UTF-8: it walks the string rune by rune
  with \<^verbatim>\<open>utf8.DecodeRuneInString\<close> and writes U+FFFD for each byte that does not start a
  well-formed encoding. \<open>rune_width\<close> is the size that decoder reports for the rune at the
  head of a non-empty string, \<open>None\<close> standing for its answer (RuneError, 1).
\<close>

definition in_range :: "nat \<Rightarrow> nat \<Rightarrow> char \<Rightarrow> bool" where
  "in_range lo hi c \<longleftrightarrow> lo \<le> of_char c \<and> of_char c \<le> hi"

definition accepts :: "nat \<Rightarrow> nat \<Rightarrow> nat \<Rightarrow> string \<Rightarrow> bool" where
  \<comment> \<open>the second byte lies in the accept range of the first, \<open>k\<close> continuation bytes follow\<close>
  "accepts lo hi k cs =
     (case cs of
        [] \<Rightarrow> False
      | c1 # rest \<Rightarrow> in_range lo hi c1 \<and> k \<le> length rest
                      \<and> list_all (in_range 0x80 0xBF) (take k rest))"

fun rune_width :: "string \<Rightarrow> nat option" where
  "rune_width [] = None"
| "rune_width (c # cs) =
     (let b = (of_char c :: nat) in
      if b < 0x80 then Some 1
      else if 0xC2 \<le> b \<and> b \<le> 0xDF then (if accepts 0x80 0xBF 0 cs then Some 2 else None)
      else if b = 0xE0 then (if accepts 0xA0 0xBF 1 cs then Some 3 else None)
      else if 0xE1 \<le> b \<and> b \<le> 0xEC then (if accepts 0x80 0xBF 1 cs then Some 3 else None)
      else if b = 0xED then (if accepts 0x80 0x9F 1 cs then Some 3 else None)
      else if 0xEE \<le> b \<and> b \<le> 0xEF then (if accepts 0x80 0xBF 1 cs then Some 3 else None)
      else if b = 0xF0 then (if accepts 0x90 0xBF 2 cs then Some 4 else None)
      else if 0xF1 \<le> b \<and> b \<le> 0xF3 then (if accepts 0x80 0xBF 2 cs then Some 4 else None)
      else if b = 0xF4 then (if accepts 0x80 0x8F 2 cs then Some 4 else None)
      else None)"

definition RuneError :: string where
  \<comment> \<open>U+FFFD in UTF-8\<close>
  "RuneError = [CHR 0xEF, CHR 0xBF, CHR 0xBD]"

text \<open>
  The walk itself. The counter is the number of bytes of the current rune still to be
  copied; at 0 the next rune is decoded.
\<close>

fun coerce :: "nat \<Rightarrow> string \<Rightarrow> string" where
  "coerce k [] = []"
| "coerce (Suc k) (c # cs) = c # coerce k cs"
| "coerce 0 (c # cs) =
     (case rune_width (c # cs) of
        None \<Rightarrow> RuneError @ coerce 0 cs
      | Some n \<Rightarrow> c # coerce (n - 1) cs)"

definition toValidUTF8 :: "string \<Rightarrow> string" where
  "toValidUTF8 s = coerce 0 s"

fun valid_from :: "nat \<Rightarrow> string \<Rightarrow> bool" where
  "valid_from k [] = True"
| "valid_from (Suc k) (c # cs) = valid_from k cs"
| "valid_from 0 (c # cs) =
     (case rune_width (c # cs) of
        None \<Rightarrow> False
      | Some n \<Rightarrow> valid_from (n - 1) cs)"

definition ValidString :: "string \<Rightarrow> bool" where
  \<comment> \<open>\<^verbatim>\<open>utf8.ValidString\<close>: every rune of the string decodes\<close>
  "ValidString s = valid_from 0 s"

subsection \<open>JSON documents\<close>

text \<open>
  JSON is kept as the value a text denotes; the text layer of \<^verbatim>\<open>encoding/json\<close>
  (escaping, white space, number syntax) is not modelled. A number keeps its literal.
  A request or response body is empty, or starts with a JSON document, or is rejected
  by the scanner with the message carried.
\<close>

datatype json =
    JNull
  | JBool bool
  | JNumber string
  | JString string
  | JArray "json list"
  | JObject "(string \<times> json) list"

datatype content = Empty | Document json | Malformed string

subsection \<open>The entity\<close>

record StreamTestMatch =
  TestMatch_ID :: string
  Domain :: string

record StreamTagMatch =
  Key :: string
  Value :: string

text \<open>A slice is a list; the nil slice and the empty slice are both \<open>[]\<close>.\<close>

record Stream =
  ID :: string
  Enabled :: bool
  Type :: string
  EndpointType :: string
  StreamEndpointUrl :: string
  DataModelVersion :: string
  TestMatch :: "StreamTestMatch list"
  TagMatch :: "StreamTagMatch list"

definition StreamTestMatch_zero :: StreamTestMatch where
  "StreamTestMatch_zero = \<lparr>TestMatch_ID = [], Domain = []\<rparr>"

definition StreamTagMatch_zero :: StreamTagMatch where
  "StreamTagMatch_zero = \<lparr>Key = [], Value = []\<rparr>"

definition Stream_zero :: Stream where
  "Stream_zero = \<lparr>ID = [], Enabled = False, Type = [], EndpointType = [],
     StreamEndpointUrl = [], DataModelVersion = [], TestMatch = [], TagMatch = []\<rparr>"

subsection \<open>Errors and results\<close>

text \<open>
  Go errors by where they are made: \<open>EOF\<close>, \<open>SyntaxError\<close> and \<open>UnmarshalTypeError\<close>
  (JSON kind, Go type) come from the decoder, \<open>TransportError\<close> is whatever
  \<^verbatim>\<open>HTTPClient.Do\<close> returned, \<open>ErrorString\<close> is the text of an \<^verbatim>\<open>fmt.Errorf\<close>, and
  \<open>CouldNotDecode e\<close> is \<^verbatim>\<open>fmt.Errorf("Could not decode JSON response: %v", e)\<close>, whose
  text is that prefix followed by the text of \<open>e\<close>.
  A call returns a value, returns an error, or panics.
\<close>

datatype error =
    EOF
  | SyntaxError string
  | UnmarshalTypeError string string
  | TransportError string
  | ErrorString string
  | CouldNotDecode error

datatype 'a res = Panic | Err error | Ok 'a

subsection \<open>Encoding: \<^verbatim>\<open>json.Marshal\<close> at the struct tags\<close>

text \<open>
  Every field of the three structs is tagged \<^verbatim>\<open>omitempty\<close>: a field is written, under
  the name of its tag, unless it is the empty string, \<^verbatim>\<open>false\<close>, or a slice of length 0.
  Fields are written in declaration order. Marshalling \<^verbatim>\<open>nil\<close> gives the document
  \<^verbatim>\<open>null\<close>. The payload of \<^verbatim>\<open>do\<close> is \<^verbatim>\<open>nil\<close> or a \<^verbatim>\<open>Stream\<close> at every call.
\<close>

definition string_field :: "string \<Rightarrow> string \<Rightarrow> (string \<times> json) list" where
  "string_field name v = (if v = [] then [] else [(name, JString (toValidUTF8 v))])"

definition bool_field :: "string \<Rightarrow> bool \<Rightarrow> (string \<times> json) list" where
  "bool_field name v = (if v then [(name, JBool True)] else [])"

definition slice_field :: "string \<Rightarrow> json list \<Rightarrow> (string \<times> json) list" where
  "slice_field name vs = (if vs = [] then [] else [(name, JArray vs)])"

definition marshal_StreamTestMatch :: "StreamTestMatch \<Rightarrow> json" where
  "marshal_StreamTestMatch m =
     JObject (string_field ''id'' (TestMatch_ID m) @ string_field ''domain'' (Domain m))"

definition marshal_StreamTagMatch :: "StreamTagMatch \<Rightarrow> json" where
  "marshal_StreamTagMatch m =
     JObject (string_field ''key'' (Key m) @ string_field ''value'' (Value m))"

definition marshal_Stream :: "Stream \<Rightarrow> json" where
  "marshal_Stream s =
     JObject (string_field ''id'' (ID s)
       @ bool_field ''enabled'' (Enabled s)
       @ string_field ''type'' (Type s)
       @ string_field ''endpointType'' (EndpointType s)
       @ string_field ''streamEndpointUrl'' (StreamEndpointUrl s)
       @ string_field ''dataModelVersion'' (DataModelVersion s)
       @ slice_field ''testMatch'' (map marshal_StreamTestMatch (TestMatch s))
       @ slice_field ''tagMatch'' (map marshal_StreamTagMatch (TagMatch s)))"

datatype payload = Nil | StreamValue Stream

fun json_Marshal :: "payload \<Rightarrow> error + json" where
  "json_Marshal Nil = Inr JNull"
| "json_Marshal (StreamValue s) = Inr (marshal_Stream s)"

subsection \<open>Decoding: \<^verbatim>\<open>Decoder.Decode\<close> into a \<^verbatim>\<open>Stream\<close>\<close>

text \<open>
  The decoder follows the contract of \<^verbatim>\<open>encoding/json\<close>. The keys of an object are taken
  in document order; a key selects the field whose tag it equals, or else the field
  whose tag it equals under case folding (the only runes outside ASCII that fold to an
  ASCII letter are U+017F and U+212A); a key that selects no field is skipped. A value of
  the wrong kind leaves its field alone and is remembered as an \<open>UnmarshalTypeError\<close>;
  decoding goes on, and the first such error is returned at the end. \<^verbatim>\<open>null\<close> leaves a
  string, a bool or a struct alone and makes a slice nil.

  An array is decoded into the slice in place. Element \<open>i\<close> of the array is decoded into
  what the backing array of the slice holds at index \<open>i\<close>: the old element \<open>i\<close>, or,
  behind the old length, what an earlier and longer array left there, or a zero struct
  where the memory is fresh. The length of the slice becomes the number of elements of
  the array, and an empty array makes a new empty slice. So a key that occurs twice
  merges its second array into the first. The target of the decoder is therefore the
  stream together with, for each of its two slices, the elements of the backing array
  behind the length of the slice.
\<close>

fun foldName :: "string \<Rightarrow> string" where
  "foldName [] = []"
| "foldName (c # cs) =
     (if c = CHR 0xC5 \<and> take 1 cs = [CHR 0xBF] then CHR ''S'' # foldName (drop 1 cs)
      else if c = CHR 0xE2 \<and> take 2 cs = [CHR 0x84, CHR 0xAA] then CHR ''K'' # foldName (drop 2 cs)
      else if in_range 0x61 0x7A c then char_of (of_char c - (32::nat)) # foldName cs
      else c # foldName cs)"

definition find_field :: "string list \<Rightarrow> string \<Rightarrow> string option" where
  "find_field names key =
     (if key \<in> set names then Some key
      else find (\<lambda>n. foldName n = foldName key) names)"

fun kind :: "json \<Rightarrow> string" where
  "kind JNull = ''null''"
| "kind (JBool b) = ''bool''"
| "kind (JNumber n) = ''number''"
| "kind (JString s) = ''string''"
| "kind (JArray vs) = ''array''"
| "kind (JObject kvs) = ''object''"

definition first_error :: "error option \<Rightarrow> error option \<Rightarrow> error option" where
  "first_error e1 e2 = (case e1 of None \<Rightarrow> e2 | Some e \<Rightarrow> Some e)"

fun decode_string :: "json \<Rightarrow> string \<Rightarrow> error option \<times> string" where
  "decode_string (JString s) old = (None, s)"
| "decode_string JNull old = (None, old)"
| "decode_string v old = (Some (UnmarshalTypeError (kind v) ''string''), old)"

fun decode_bool :: "json \<Rightarrow> bool \<Rightarrow> error option \<times> bool" where
  "decode_bool (JBool b) old = (None, b)"
| "decode_bool JNull old = (None, old)"
| "decode_bool v old = (Some (UnmarshalTypeError (kind v) ''bool''), old)"

fun decode_members ::
  "(string \<Rightarrow> json \<Rightarrow> 'a \<Rightarrow> error option \<times> 'a) \<Rightarrow> (string \<times> json) list \<Rightarrow> 'a \<Rightarrow> error option \<times> 'a" where
  "decode_members f [] t = (None, t)"
| "decode_members f ((k, v) # kvs) t =
     (let (e1, t1) = f k v t; (e2, t2) = decode_members f kvs t1
      in (first_error e1 e2, t2))"

fun decode_elements ::
  "(json \<Rightarrow> 'a \<Rightarrow> error option \<times> 'a) \<Rightarrow> 'a \<Rightarrow> json list \<Rightarrow> 'a list \<Rightarrow> error option \<times> 'a list" where
  "decode_elements f z [] backing = (None, [])"
| "decode_elements f z (v # vs) backing =
     (let (e1, x) = f v (case backing of [] \<Rightarrow> z | b # bs \<Rightarrow> b);
          (e2, xs) = decode_elements f z vs (drop 1 backing)
      in (first_error e1 e2, x # xs))"

fun decode_slice ::
  "(json \<Rightarrow> 'a \<Rightarrow> error option \<times> 'a) \<Rightarrow> 'a \<Rightarrow> string \<Rightarrow> json \<Rightarrow> 'a list \<Rightarrow> 'a list
     \<Rightarrow> error option \<times> 'a list \<times> 'a list" where
  "decode_slice f z ty (JArray vs) old behind =
     (let (e, xs) = decode_elements f z vs (old @ behind)
      in (e, xs, if vs = [] then [] else drop (length vs) (old @ behind)))"
| "decode_slice f z ty JNull old behind = (None, [], [])"
| "decode_slice f z ty v old behind = (Some (UnmarshalTypeError (kind v) ty), old, behind)"

definition StreamTestMatch_member ::
  "string \<Rightarrow> json \<Rightarrow> StreamTestMatch \<Rightarrow> error option \<times> StreamTestMatch" where
  "StreamTestMatch_member k v t =
     (let f = find_field [''id'', ''domain''] k in
      if f = Some ''id'' then
        (let (e, x) = decode_string v (TestMatch_ID t) in (e, t\<lparr>TestMatch_ID := x\<rparr>))
      else if f = Some ''domain'' then
        (let (e, x) = decode_string v (Domain t) in (e, t\<lparr>Domain := x\<rparr>))
      else (None, t))"

fun decode_StreamTestMatch :: "json \<Rightarrow> StreamTestMatch \<Rightarrow> error option \<times> StreamTestMatch" where
  "decode_StreamTestMatch (JObject kvs) t = decode_members StreamTestMatch_member kvs t"
| "decode_StreamTestMatch JNull t = (None, t)"
| "decode_StreamTestMatch v t = (Some (UnmarshalTypeError (kind v) ''StreamTestMatch''), t)"

definition StreamTagMatch_member ::
  "string \<Rightarrow> json \<Rightarrow> StreamTagMatch \<Rightarrow> error option \<times> StreamTagMatch" where
  "StreamTagMatch_member k v t =
     (let f = find_field [''key'', ''value''] k in
      if f = Some ''key'' then
        (let (e, x) = decode_string v (Key t) in (e, t\<lparr>Key := x\<rparr>))
      else if f = Some ''value'' then
        (let (e, x) = decode_string v (Value t) in (e, t\<lparr>Value := x\<rparr>))
      else (None, t))"

fun decode_StreamTagMatch :: "json \<Rightarrow> StreamTagMatch \<Rightarrow> error option \<times> StreamTagMatch" where
  "decode_StreamTagMatch (JObject kvs) t = decode_members StreamTagMatch_member kvs t"
| "decode_StreamTagMatch JNull t = (None, t)"
| "decode_StreamTagMatch v t = (Some (UnmarshalTypeError (kind v) ''StreamTagMatch''), t)"

definition Stream_fields :: "string list" where
  "Stream_fields = [''id'', ''enabled'', ''type'', ''endpointType'', ''streamEndpointUrl'',
     ''dataModelVersion'', ''testMatch'', ''tagMatch'']"

record Stream_target = Stream +
  behind_TestMatch :: "StreamTestMatch list"
  behind_TagMatch :: "StreamTagMatch list"

definition Stream_member :: "string \<Rightarrow> json \<Rightarrow> Stream_target \<Rightarrow> error option \<times> Stream_target" where
  "Stream_member k v t =
     (let f = find_field Stream_fields k in
      if f = Some ''id'' then
        (let (e, x) = decode_string v (ID t) in (e, t\<lparr>ID := x\<rparr>))
      else if f = Some ''enabled'' then
        (let (e, x) = decode_bool v (Enabled t) in (e, t\<lparr>Enabled := x\<rparr>))
      else if f = Some ''type'' then
        (let (e, x) = decode_string v (Type t) in (e, t\<lparr>Type := x\<rparr>))
      else if f = Some ''endpointType'' then
        (let (e, x) = decode_string v (EndpointType t) in (e, t\<lparr>EndpointType := x\<rparr>))
      else if f = Some ''streamEndpointUrl'' then
        (let (e, x) = decode_string v (StreamEndpointUrl t) in (e, t\<lparr>StreamEndpointUrl := x\<rparr>))
      else if f = Some ''dataModelVersion'' then
        (let (e, x) = decode_string v (DataModelVersion t) in (e, t\<lparr>DataModelVersion := x\<rparr>))
      else if f = Some ''testMatch'' then
        (let (e, x, b) = decode_slice decode_StreamTestMatch StreamTestMatch_zero
                           ''[]StreamTestMatch'' v (TestMatch t) (behind_TestMatch t)
         in (e, t\<lparr>TestMatch := x, behind_TestMatch := b\<rparr>))
      else if f = Some ''tagMatch'' then
        (let (e, x, b) = decode_slice decode_StreamTagMatch StreamTagMatch_zero
                           ''[]StreamTagMatch'' v (TagMatch t) (behind_TagMatch t)
         in (e, t\<lparr>TagMatch := x, behind_TagMatch := b\<rparr>))
      else (None, t))"

fun decode_Stream :: "json \<Rightarrow> Stream_target \<Rightarrow> error option \<times> Stream_target" where
  "decode_Stream (JObject kvs) t = decode_members Stream_member kvs t"
| "decode_Stream JNull t = (None, t)"
| "decode_Stream v t = (Some (UnmarshalTypeError (kind v) ''Stream''), t)"

definition fresh :: "Stream \<Rightarrow> Stream_target" where
  \<comment> \<open>a variable just declared: nothing lies behind its slices\<close>
  "fresh t = Stream.extend t \<lparr>behind_TestMatch = [], behind_TagMatch = []\<rparr>"

text \<open>
  \<^verbatim>\<open>Decoder.Decode\<close> on a body. Every target in the file is a variable declared just
  before the call.
\<close>

fun Decode :: "content \<Rightarrow> Stream \<Rightarrow> error option \<times> Stream" where
  "Decode Empty t = (Some EOF, t)"
| "Decode (Malformed msg) t = (Some (SyntaxError msg), t)"
| "Decode (Document v) t = (let (e, t1) = decode_Stream v (fresh t) in (e, Stream.truncate t1))"

subsection \<open>Library functions used by the client\<close>

text \<open>
  \<^verbatim>\<open>strings.ReplaceAll\<close>: from left to right, each match of \<open>old\<close> is replaced and the
  search resumes behind it. The counter is the number of matched bytes still to be
  skipped. For an empty \<open>old\<close> Go puts \<open>new\<close> in front of every rune and at the end.
\<close>

fun replace_from :: "string \<Rightarrow> string \<Rightarrow> nat \<Rightarrow> string \<Rightarrow> string" where
  "replace_from old new k [] = []"
| "replace_from old new (Suc k) (c # cs) = replace_from old new k cs"
| "replace_from old new 0 (c # cs) =
     (if take (length old) (c # cs) = old
      then new @ replace_from old new (length old - 1) cs
      else c # replace_from old new 0 cs)"

fun insert_at_runes :: "string \<Rightarrow> nat \<Rightarrow> string \<Rightarrow> string" where
  "insert_at_runes new k [] = new"
| "insert_at_runes new (Suc k) (c # cs) = c # insert_at_runes new k cs"
| "insert_at_runes new 0 (c # cs) =
     new @ c # insert_at_runes new (case rune_width (c # cs) of None \<Rightarrow> 0 | Some n \<Rightarrow> n - 1) cs"

definition ReplaceAll :: "string \<Rightarrow> string \<Rightarrow> string \<Rightarrow> string" where
  "ReplaceAll s old new =
     (if old = [] then insert_at_runes new 0 s else replace_from old new 0 s)"

text \<open>\<^verbatim>\<open>%d\<close> and \<^verbatim>\<open>%v\<close> of an \<^verbatim>\<open>int\<close>: the decimal numeral, with a sign when negative.\<close>

fun digits :: "nat \<Rightarrow> string" where
  "digits n =
     (if n < 10 then [''0123456789'' ! n]
      else digits (n div 10) @ [''0123456789'' ! (n mod 10)])"

definition Itoa :: "int \<Rightarrow> string" where
  "Itoa i = (if i < 0 then CHR ''-'' # digits (nat (- i)) else digits (nat i))"

subsection \<open>URLs, as \<^verbatim>\<open>net/url\<close> cuts and re-encodes them\<close>

text \<open>
  \<^verbatim>\<open>url.Parse\<close> cuts the string at the first \<^verbatim>\<open>#\<close>: what follows is the fragment. What
  precedes is cut at the first \<^verbatim>\<open>?\<close>: what follows is the raw query; a string whose only
  \<^verbatim>\<open>?\<close> is its last byte has an empty query that is forced. The text in front of the
  query and the text of the fragment are kept as written: the fields \<^verbatim>\<open>net/url\<close> derives
  from them (scheme, user, host, path, unescaped fragment) are functions of these two
  texts, and whether they are well formed is part of whether \<^verbatim>\<open>http.NewRequest\<close> accepts
  the URL.
\<close>

record url =
  Front :: string
  ForceQuery :: bool
  RawQuery :: string
  Fragment :: string

definition Cut :: "char \<Rightarrow> string \<Rightarrow> string \<times> string" where
  \<comment> \<open>\<^verbatim>\<open>strings.Cut\<close>: the text before the first separator and the text after it\<close>
  "Cut sep s = (takeWhile (\<lambda>ch. ch \<noteq> sep) s, drop 1 (dropWhile (\<lambda>ch. ch \<noteq> sep) s))"

definition url_Parse :: "string \<Rightarrow> url" where
  "url_Parse rawURL =
     (let (u, frag) = Cut CHR ''#'' rawURL;
          force = (u \<noteq> [] \<and> last u = CHR ''?'' \<and> count_list u CHR ''?'' = 1);
          (front, query) = (if force then (butlast u, []) else Cut CHR ''?'' u)
      in \<lparr>Front = front, ForceQuery = force, RawQuery = query, Fragment = frag\<rparr>)"


text \<open>
  \<^verbatim>\<open>url.QueryUnescape\<close> turns \<^verbatim>\<open>%XX\<close> into the byte and \<^verbatim>\<open>+\<close> into a space, and fails on
  a \<^verbatim>\<open>%\<close> that two hexadecimal digits do not follow. \<^verbatim>\<open>url.QueryEscape\<close> keeps letters,
  digits and \<^verbatim>\<open>-_.~\<close>, writes a space as \<^verbatim>\<open>+\<close> and every other byte as \<^verbatim>\<open>%XX\<close>.
\<close>

definition ishex :: "char \<Rightarrow> bool" where
  "ishex ch \<longleftrightarrow> in_range 0x30 0x39 ch \<or> in_range 0x61 0x66 ch \<or> in_range 0x41 0x46 ch"

definition unhex :: "char \<Rightarrow> nat" where
  "unhex ch =
     (if in_range 0x30 0x39 ch then of_char ch - 0x30
      else if in_range 0x61 0x66 ch then of_char ch - 0x61 + 10
      else if in_range 0x41 0x46 ch then of_char ch - 0x41 + 10
      else 0)"

fun QueryUnescape :: "string \<Rightarrow> string option" where
  "QueryUnescape [] = Some []"
| "QueryUnescape (ch # cs) =
     (if ch = CHR ''%'' then
        (case cs of
           a # b # rest \<Rightarrow>
             if ishex a \<and> ishex b
             then map_option ((#) (char_of (16 * unhex a + unhex b))) (QueryUnescape rest)
             else None
         | _ \<Rightarrow> None)
      else map_option ((#) (if ch = CHR ''+'' then CHR '' '' else ch)) (QueryUnescape cs))"

definition unreserved :: "char \<Rightarrow> bool" where
  "unreserved ch \<longleftrightarrow>
     in_range 0x61 0x7A ch \<or> in_range 0x41 0x5A ch \<or> in_range 0x30 0x39 ch
     \<or> ch = CHR ''-'' \<or> ch = CHR ''_'' \<or> ch = CHR ''.'' \<or> ch = CHR ''~''"

definition escape_byte :: "char \<Rightarrow> string" where
  "escape_byte ch =
     (if unreserved ch then [ch]
      else if ch = CHR '' '' then ''+''
      else [CHR ''%'', ''0123456789ABCDEF'' ! (of_char ch div 16),
            ''0123456789ABCDEF'' ! (of_char ch mod 16)])"

definition QueryEscape :: "string \<Rightarrow> string" where
  "QueryEscape s = concat (map escape_byte s)"

text \<open>
  \<^verbatim>\<open>url.Values\<close> maps a key to its values in the order they were added.
  \<^verbatim>\<open>URL.Query\<close> is \<^verbatim>\<open>ParseQuery\<close> of the raw query with its error dropped: the pairs are
  separated by \<^verbatim>\<open>&\<close>; a pair that is empty, that contains a semicolon, or whose key or
  value does not unescape, is left out. \<^verbatim>\<open>Values.Encode\<close> writes the pairs sorted by
  key (bytewise), key and value escaped, joined by \<^verbatim>\<open>&\<close>.
\<close>

type_synonym Values = "(string \<times> string list) list"

fun Values_Add :: "string \<Rightarrow> string \<Rightarrow> Values \<Rightarrow> Values" where
  "Values_Add k x [] = [(k, [x])]"
| "Values_Add k x ((k', xs) # m) =
     (if k = k' then (k', xs @ [x]) # m else (k', xs) # Values_Add k x m)"

fun split_on :: "char \<Rightarrow> string \<Rightarrow> string list" where
  "split_on sep [] = [[]]"
| "split_on sep (ch # cs) =
     (if ch = sep then [] # split_on sep cs
      else (case split_on sep cs of [] \<Rightarrow> [[ch]] | p # ps \<Rightarrow> (ch # p) # ps))"

definition parse_pair :: "string \<Rightarrow> (string \<times> string) option" where
  "parse_pair piece =
     (if CHR '';'' \<in> set piece \<or> piece = [] then None
      else
        let (k, v) = Cut CHR ''='' piece in
        case QueryUnescape k of
          None \<Rightarrow> None
        | Some k1 \<Rightarrow> (case QueryUnescape v of None \<Rightarrow> None | Some v1 \<Rightarrow> Some (k1, v1)))"

definition ParseQuery :: "string \<Rightarrow> Values" where
  "ParseQuery query =
     foldl (\<lambda>m piece. case parse_pair piece of None \<Rightarrow> m | Some (k, v) \<Rightarrow> Values_Add k v m)
       [] (split_on CHR ''&'' query)"

definition Query :: "url \<Rightarrow> Values" where
  "Query u = ParseQuery (RawQuery u)"

fun string_less :: "string \<Rightarrow> string \<Rightarrow> bool" where
  "string_less [] [] = False"
| "string_less [] (y # ys) = True"
| "string_less (x # xs) [] = False"
| "string_less (x # xs) (y # ys) =
     ((of_char x :: nat) < of_char y \<or> (x = y \<and> string_less xs ys))"

fun insert_by_key :: "string \<times> string list \<Rightarrow> Values \<Rightarrow> Values" where
  "insert_by_key p [] = [p]"
| "insert_by_key p (q # m) =
     (if string_less (fst q) (fst p) then q # insert_by_key p m else p # q # m)"

fun join_amp :: "string list \<Rightarrow> string" where
  "join_amp [] = []"
| "join_amp [x] = x"
| "join_amp (x # y # zs) = x @ CHR ''&'' # join_amp (y # zs)"

definition Values_Encode :: "Values \<Rightarrow> string" where
  "Values_Encode m =
     join_amp (concat (map (\<lambda>(k, vs). map (\<lambda>v. QueryEscape k @ CHR ''='' # QueryEscape v) vs)
                         (foldr insert_by_key m [])))"

subsection \<open>Clients\<close>

text \<open>
  Modelled from the spec: the declaration of \<^verbatim>\<open>thousandeyes.Client\<close> belongs to the SDK and
  is not part of the file; the record has the fields the file reads. \<open>HTTPClient\<close> and
  \<open>Limiter\<close> are references (\<open>Limiter\<close> may be nil); a struct copy copies the reference.

  Clients live in a store, a pointer being an index into it. \<^verbatim>\<open>new\<close> appends a zero
  client. A pointer outside the store is a nil pointer.
\<close>

record Client =
  AuthToken :: string
  AccountGroupID :: string
  APIEndpoint :: string
  HTTPClient :: nat
  Limiter :: "nat option"
  UserAgent :: string

type_synonym addr = nat
type_synonym store = "Client list"

definition Client_zero :: Client where
  "Client_zero = \<lparr>AuthToken = [], AccountGroupID = [], APIEndpoint = [], HTTPClient = 0,
     Limiter = None, UserAgent = []\<rparr>"

record StreamClient =
  c :: addr

definition NewStreamClientFrom :: "store \<Rightarrow> addr \<Rightarrow> (StreamClient \<times> store) option" where
  \<comment> \<open>\<open>None\<close>: the dereference of a nil \<open>v6\<close> panics\<close>
  "NewStreamClientFrom h v6 =
     (if length h \<le> v6 then None
      else
        let v7 = length h;
            h1 = h @ [Client_zero];
            h2 = h1[v7 := h1 ! v6];
            h3 = h2[v7 := (h2 ! v7)\<lparr>APIEndpoint := ReplaceAll (APIEndpoint (h2 ! v6)) ''v6'' ''v7''\<rparr>]
        in Some (\<lparr>c = v7\<rparr>, h3))"

subsection \<open>Requests, responses and the world\<close>

text \<open>
  A request has the URL that \<^verbatim>\<open>http.NewRequest\<close> parses from the string it is given.
  Header names are kept as \<^verbatim>\<open>Header.Set\<close> receives them.

  The surroundings are parameters: \<open>NewRequest_ok\<close> says whether \<^verbatim>\<open>http.NewRequest\<close>
  accepts a method and a URL (the file discards its error, so a refusal leaves a nil
  request, and the next statement dereferences it); \<open>Do\<close> is \<^verbatim>\<open>HTTPClient.Do\<close>, a step of
  the server's state that answers with a response or fails with a message.

  What a call does to the world is recorded as events: a wait on the rate limiter, a
  request handed to the HTTP client, a run of the decoder on a response body, the close
  of a response body. \<^verbatim>\<open>log.Printf\<close> is left out.
\<close>

record request =
  Method :: string
  URL :: url
  Header :: "string \<rightharpoonup> string"
  ReqBody :: content

record response =
  StatusCode :: int
  Body :: content

datatype event = Waited | Sent request | Decoded | Closed

record 'sv env =
  NewRequest_ok :: "string \<Rightarrow> string \<Rightarrow> bool"
  Do :: "nat \<Rightarrow> request \<Rightarrow> 'sv \<Rightarrow> (string + response) \<times> 'sv"

record 'sv world =
  server :: 'sv
  events :: "event list"

definition emit :: "event \<Rightarrow> 'sv world \<Rightarrow> 'sv world" where
  "emit e w = w\<lparr>events := events w @ [e]\<rparr>"

primrec sent :: "event list \<Rightarrow> request list" where
  "sent [] = []"
| "sent (e # es) = (case e of Sent req \<Rightarrow> req # sent es | _ \<Rightarrow> sent es)"

definition decodes :: "event list \<Rightarrow> nat" where
  "decodes es = length (filter (\<lambda>e. e = Decoded) es)"

definition closes :: "event list \<Rightarrow> nat" where
  "closes es = length (filter (\<lambda>e. e = Closed) es)"

definition NewRequest :: "string \<Rightarrow> string \<Rightarrow> json \<Rightarrow> request" where
  \<comment> \<open>an empty method means GET; the body is a buffer over the marshalled bytes\<close>
  "NewRequest method url data =
     \<lparr>Method = (if method = [] then ''GET'' else method), URL = url_Parse url,
      Header = Map.empty, ReqBody = Document data\<rparr>"

definition Header_Set :: "string \<Rightarrow> string \<Rightarrow> request \<Rightarrow> request" where
  "Header_Set k v req = req\<lparr>Header := (Header req)(k \<mapsto> v)\<rparr>"

subsection \<open>The request cycle\<close>

text \<open>
  \<open>request_of\<close> is the part of \<^verbatim>\<open>do\<close> between \<^verbatim>\<open>http.NewRequest\<close> and the last
  \<^verbatim>\<open>Header.Set\<close>: the request as it is handed to the HTTP client. With an account
  group, the query of the parsed URL is read, \<^verbatim>\<open>aid\<close> is added, and the raw query is
  overwritten with the encoding of the result.
\<close>

definition request_of :: "Client \<Rightarrow> string \<Rightarrow> string \<Rightarrow> json \<Rightarrow> request" where
  "request_of cl method endpoint data =
     (let req0 = NewRequest method endpoint data;
          req1 = (if AccountGroupID cl \<noteq> []
                  then (let q = Values_Add ''aid'' (AccountGroupID cl) (Query (URL req0))
                        in req0\<lparr>URL := (URL req0)\<lparr>RawQuery := Values_Encode q\<rparr>\<rparr>)
                  else req0);
          req2 = Header_Set ''accept'' ''application/json'' req1;
          req3 = Header_Set ''authorization'' (''Bearer '' @ AuthToken cl) req2;
          req4 = Header_Set ''content-type'' ''application/json'' req3
      in Header_Set ''user-agent'' (UserAgent cl) req4)"

definition do ::
  "'sv env \<Rightarrow> Client \<Rightarrow> string \<Rightarrow> string \<Rightarrow> payload \<Rightarrow> 'sv world \<Rightarrow> response res \<times> 'sv world" where
  "do env cl method path payload w =
     (let w1 = (if Limiter cl \<noteq> None then emit Waited w else w);
          endpoint = APIEndpoint cl @ path @ ''.json''
      in case json_Marshal payload of
           Inl err \<Rightarrow> (Err err, w1)
         | Inr data \<Rightarrow>
             if \<not> NewRequest_ok env method endpoint then (Panic, w1)
             else
               let req = request_of cl method endpoint data;
                   (r, sv) = Do env (HTTPClient cl) req (server w1);
                   w2 = emit (Sent req) (w1\<lparr>server := sv\<rparr>)
               in case r of
                    Inl err \<Rightarrow> (Err (TransportError err), w2)
                  | Inr resp \<Rightarrow>
                      if 199 \<ge> StatusCode resp \<or> 300 \<le> StatusCode resp
                      then (Err (ErrorString (''Failed call API endpoint. HTTP response code: ''
                                    @ Itoa (StatusCode resp) @ ''.'')), w2)
                      else (Ok resp, w2))"

definition decodeJSON :: "response \<Rightarrow> Stream \<Rightarrow> 'sv world \<Rightarrow> (error option \<times> Stream) \<times> 'sv world" where
  \<comment> \<open>the deferred close runs after the decoder, whatever the decoder returns\<close>
  "decodeJSON resp target w =
     (let r = Decode (Body resp) target;
          w1 = emit Decoded w
      in (r, emit Closed w1))"

subsection \<open>The CRUD operations\<close>

definition CreateStream ::
  "'sv env \<Rightarrow> Client \<Rightarrow> Stream \<Rightarrow> 'sv world \<Rightarrow> Stream res \<times> 'sv world" where
  "CreateStream env cl s w =
     (case do env cl ''POST'' ''/stream'' (StreamValue s) w of
        (Panic, w1) \<Rightarrow> (Panic, w1)
      | (Err err, w1) \<Rightarrow> (Err err, w1)
      | (Ok resp, w1) \<Rightarrow>
          if StatusCode resp \<noteq> 201
          then (Err (ErrorString (''failed to create stream, response code ''
                        @ Itoa (StatusCode resp))), w1)
          else
            (case decodeJSON resp Stream_zero w1 of
               ((Some dErr, target), w2) \<Rightarrow> (Err (CouldNotDecode dErr), w2)
             | ((None, target), w2) \<Rightarrow> (Ok target, w2)))"

definition GetStream ::
  "'sv env \<Rightarrow> Client \<Rightarrow> string \<Rightarrow> 'sv world \<Rightarrow> Stream res \<times> 'sv world" where
  "GetStream env cl id' w =
     (case do env cl ''GET'' (''/stream/'' @ id') Nil w of
        (Panic, w1) \<Rightarrow> (Panic, w1)
      | (Err err, w1) \<Rightarrow> (Err err, w1)
      | (Ok resp, w1) \<Rightarrow>
          if StatusCode resp \<noteq> 200
          then (Err (ErrorString (''failed to get stream, response code ''
                        @ Itoa (StatusCode resp))), w1)
          else
            (case decodeJSON resp Stream_zero w1 of
               ((Some dErr, target), w2) \<Rightarrow> (Err (CouldNotDecode dErr), w2)
             | ((None, target), w2) \<Rightarrow> (Ok target, w2)))"

definition UpdateStream ::
  "'sv env \<Rightarrow> Client \<Rightarrow> string \<Rightarrow> Stream \<Rightarrow> 'sv world \<Rightarrow> Stream res \<times> 'sv world" where
  "UpdateStream env cl id' s w =
     (case do env cl ''PUT'' (''/stream/'' @ id') (StreamValue s) w of
        (Panic, w1) \<Rightarrow> (Panic, w1)
      | (Err err, w1) \<Rightarrow> (Err err, w1)
      | (Ok resp, w1) \<Rightarrow>
          if StatusCode resp \<noteq> 200
          then (Err (ErrorString (''failed to update stream, response code ''
                        @ Itoa (StatusCode resp))), w1)
          else
            (case decodeJSON resp Stream_zero w1 of
               ((Some dErr, target), w2) \<Rightarrow> (Err (CouldNotDecode dErr), w2)
             | ((None, target), w2) \<Rightarrow> (Ok target, w2)))"

definition DeleteStream ::
  "'sv env \<Rightarrow> Client \<Rightarrow> string \<Rightarrow> 'sv world \<Rightarrow> unit res \<times> 'sv world" where
  "DeleteStream env cl id' w =
     (case do env cl ''DELETE'' (''/stream/'' @ id') Nil w of
        (Panic, w1) \<Rightarrow> (Panic, w1)
      | (Err err, w1) \<Rightarrow> (Err err, w1)
      | (Ok resp, w1) \<Rightarrow>
          if StatusCode resp \<noteq> 204
          then (Err (ErrorString (''failed to delete stream, response code ''
                        @ Itoa (StatusCode resp))), w1)
          else (Ok (), w1))"

subsection \<open>The resource handlers\<close>

text \<open>
  Modelled from the spec: \<^verbatim>\<open>schema.ResourceData\<close> belongs to the Terraform SDK, and
  \<^verbatim>\<open>ResourceBuildStruct\<close>, \<^verbatim>\<open>ResourceUpdate\<close> and \<^verbatim>\<open>ResourceRead\<close> are defined elsewhere in
  the provider; the spec treats them as opaque services. The representation is its
  stored ID (\<^verbatim>\<open>d.Id()\<close>, \<^verbatim>\<open>d.SetId\<close>) and an attribute bag of any type; the three
  services are parameters, \<^verbatim>\<open>ResourceRead\<close> returning its result with the representation
  as it leaves it. The provider context \<open>m\<close> is a pointer to a client.
\<close>

record 'a ResourceData =
  rd_Id :: string
  attrs :: 'a

definition SetId :: "string \<Rightarrow> 'a ResourceData \<Rightarrow> 'a ResourceData" where
  "SetId v d = d\<lparr>rd_Id := v\<rparr>"

record 'a services =
  ResourceBuildStruct :: "'a ResourceData \<Rightarrow> Stream"
  ResourceUpdate :: "'a ResourceData \<Rightarrow> Stream"
  ResourceRead :: "'a ResourceData \<Rightarrow> Stream \<Rightarrow> unit res \<times> 'a ResourceData"

definition buildStreamStruct :: "'a services \<Rightarrow> 'a ResourceData \<Rightarrow> Stream" where
  "buildStreamStruct sv d = ResourceBuildStruct sv d"

definition resourceStreamRead ::
  "'sv env \<Rightarrow> 'a services \<Rightarrow> store \<Rightarrow> addr \<Rightarrow> 'a ResourceData \<Rightarrow> 'sv world
     \<Rightarrow> unit res \<times> 'a ResourceData \<times> 'sv world" where
  "resourceStreamRead env sv h m d w =
     (case NewStreamClientFrom h m of
        None \<Rightarrow> (Panic, d, w)
      | Some (streamClient, h1) \<Rightarrow>
          (case GetStream env (h1 ! c streamClient) (rd_Id d) w of
             (Panic, w1) \<Rightarrow> (Panic, d, w1)
           | (Err err, w1) \<Rightarrow> (Err err, SetId [] d, w1)
           | (Ok remote, w1) \<Rightarrow>
               (let (r, d1) = ResourceRead sv d remote in (r, d1, w1))))"

definition resourceStreamCreate ::
  "'sv env \<Rightarrow> 'a services \<Rightarrow> store \<Rightarrow> addr \<Rightarrow> 'a ResourceData \<Rightarrow> 'sv world
     \<Rightarrow> unit res \<times> 'a ResourceData \<times> 'sv world" where
  "resourceStreamCreate env sv h m d w =
     (case NewStreamClientFrom h m of
        None \<Rightarrow> (Panic, d, w)
      | Some (streamClient, h1) \<Rightarrow>
          (let local = buildStreamStruct sv d in
           case CreateStream env (h1 ! c streamClient) local w of
             (Panic, w1) \<Rightarrow> (Panic, d, w1)
           | (Err err, w1) \<Rightarrow> (Err err, d, w1)
           | (Ok remote, w1) \<Rightarrow> resourceStreamRead env sv h1 m (SetId (ID remote) d) w1))"

definition resourceStreamUpdate ::
  "'sv env \<Rightarrow> 'a services \<Rightarrow> store \<Rightarrow> addr \<Rightarrow> 'a ResourceData \<Rightarrow> 'sv world
     \<Rightarrow> unit res \<times> 'a ResourceData \<times> 'sv world" where
  "resourceStreamUpdate env sv h m d w =
     (case NewStreamClientFrom h m of
        None \<Rightarrow> (Panic, d, w)
      | Some (streamClient, h1) \<Rightarrow>
          (let update = ResourceUpdate sv d in
           case UpdateStream env (h1 ! c streamClient) (rd_Id d) update w of
             (Panic, w1) \<Rightarrow> (Panic, d, w1)
           | (Err err, w1) \<Rightarrow> (Err err, d, w1)
           | (Ok remote, w1) \<Rightarrow> resourceStreamRead env sv h1 m d w1))"

definition resourceStreamDelete ::
  "'sv env \<Rightarrow> store \<Rightarrow> addr \<Rightarrow> 'a ResourceData \<Rightarrow> 'sv world
     \<Rightarrow> unit res \<times> 'a ResourceData \<times> 'sv world" where
  "resourceStreamDelete env h m d w =
     (case NewStreamClientFrom h m of
        None \<Rightarrow> (Panic, d, w)
      | Some (streamClient, h1) \<Rightarrow>
          (case DeleteStream env (h1 ! c streamClient) (rd_Id d) w of
             (Panic, w1) \<Rightarrow> (Panic, d, w1)
           | (Err err, w1) \<Rightarrow> (Err err, d, w1)
           | (Ok u, w1) \<Rightarrow> (Ok (), SetId [] d, w1)))"

subsection \<open>Well-formed strings and observers of documents\<close>

definition valid_StreamTestMatch :: "StreamTestMatch \<Rightarrow> bool" where
  "valid_StreamTestMatch m \<longleftrightarrow> ValidString (TestMatch_ID m) \<and> ValidString (Domain m)"

definition valid_StreamTagMatch :: "StreamTagMatch \<Rightarrow> bool" where
  "valid_StreamTagMatch m \<longleftrightarrow> ValidString (Key m) \<and> ValidString (Value m)"

definition valid_Stream :: "Stream \<Rightarrow> bool" where
  \<comment> \<open>every string of the entity is valid UTF-8\<close>
  "valid_Stream s \<longleftrightarrow>
     ValidString (ID s) \<and> ValidString (Type s) \<and> ValidString (EndpointType s)
     \<and> ValidString (StreamEndpointUrl s) \<and> ValidString (DataModelVersion s)
     \<and> list_all valid_StreamTestMatch (TestMatch s)
     \<and> list_all valid_StreamTagMatch (TagMatch s)"

fun members :: "json \<Rightarrow> (string \<times> json) list" where
  "members (JObject kvs) = kvs"
| "members v = []"

subsection \<open>Fixtures\<close>

text \<open>
  A server that answers every request with one status and one body, a v6 client and the
  client derived from it, an empty world, and representations whose attribute bag is
  a stream.
\<close>

definition mock_env :: "int \<Rightarrow> content \<Rightarrow> unit env" where
  "mock_env code body =
     \<lparr>NewRequest_ok = (\<lambda>method url. True),
      Do = (\<lambda>hc req sv. (Inr \<lparr>StatusCode = code, Body = body\<rparr>, sv))\<rparr>"

definition client6 :: Client where
  "client6 = \<lparr>AuthToken = ''token'', AccountGroupID = ''1234'',
     APIEndpoint = ''https://api.thousandeyes.com/v6'', HTTPClient = 0, Limiter = Some 0,
     UserAgent = ''agent''\<rparr>"

definition client7 :: Client where
  "client7 = \<lparr>AuthToken = ''token'', AccountGroupID = ''1234'',
     APIEndpoint = ''https://api.thousandeyes.com/v7'', HTTPClient = 0, Limiter = Some 0,
     UserAgent = ''agent''\<rparr>"

definition world0 :: "unit world" where
  "world0 = \<lparr>server = (), events = []\<rparr>"

definition services0 :: "Stream services" where
  "services0 = \<lparr>ResourceBuildStruct = attrs, ResourceUpdate = attrs,
     ResourceRead = (\<lambda>d s. (Ok (), d\<lparr>attrs := s\<rparr>))\<rparr>"

definition data0 :: "Stream ResourceData" where
  "data0 = \<lparr>rd_Id = ''s-123'', attrs = Stream_zero\<rparr>"


definition stream_doc :: json where
  "stream_doc = JObject [(''id'', JString ''s-123''), (''enabled'', JBool True)]"

definition rest_env :: "unit env" where
  \<comment> \<open>a server that answers a POST with 201 and anything else with 200, always with \<open>stream_doc\<close>\<close>
  "rest_env =
     \<lparr>NewRequest_ok = (\<lambda>method url. True),
      Do = (\<lambda>hc req sv.
              (Inr \<lparr>StatusCode = (if Method req = ''POST'' then 201 else 200),
                    Body = Document stream_doc\<rparr>, sv))\<rparr>"



section \<open>Properties\<close>

declare rune_width.simps [simp del]

subsection \<open>The JSON form of a stream\<close>

lemma coerce_valid: "valid_from k s \<Longrightarrow> coerce k s = s"
proof (induction s arbitrary: k)
  case Nil
  then show ?case by simp
next
  case (Cons a s)
  then show ?case by (cases k) (auto split: option.splits)
qed

lemma toValidUTF8_valid: "ValidString s \<Longrightarrow> toValidUTF8 s = s"
  by (simp add: ValidString_def toValidUTF8_def coerce_valid)

lemma decode_members_append:
  "decode_members f (xs @ ys) t =
     (let (e1, t1) = decode_members f xs t; (e2, t2) = decode_members f ys t1
      in (first_error e1 e2, t2))"
  by (induction xs arbitrary: t) (auto simp: first_error_def split: prod.splits option.splits)

lemma decode_members_append_ok:
  "decode_members f xs t = (None, t1) \<Longrightarrow> decode_members f (xs @ ys) t = decode_members f ys t1"
  by (simp add: decode_members_append first_error_def split: prod.splits)

lemma find_field_exact: "k \<in> set names \<Longrightarrow> find_field names k = Some k"
  by (simp add: find_field_def)

text \<open>Each member written by the encoder is read back into its own field.\<close>

lemma member_id_tm: "StreamTestMatch_member ''id'' v t =
   (let (e, x) = decode_string v (TestMatch_ID t) in (e, t\<lparr>TestMatch_ID := x\<rparr>))"
  by (simp add: StreamTestMatch_member_def find_field_exact)

lemma member_domain_tm: "StreamTestMatch_member ''domain'' v t =
   (let (e, x) = decode_string v (Domain t) in (e, t\<lparr>Domain := x\<rparr>))"
  by (simp add: StreamTestMatch_member_def find_field_exact)

lemma tm_id: "decode_members StreamTestMatch_member (string_field ''id'' v) t =
   (None, if v = [] then t else t\<lparr>TestMatch_ID := toValidUTF8 v\<rparr>)"
  by (simp add: string_field_def member_id_tm first_error_def)

lemma tm_domain: "decode_members StreamTestMatch_member (string_field ''domain'' v) t =
   (None, if v = [] then t else t\<lparr>Domain := toValidUTF8 v\<rparr>)"
  by (simp add: string_field_def member_domain_tm first_error_def)

lemma tm_roundtrip:
  "valid_StreamTestMatch m \<Longrightarrow>
   decode_StreamTestMatch (marshal_StreamTestMatch m) StreamTestMatch_zero = (None, m)"
  by (simp add: marshal_StreamTestMatch_def decode_members_append_ok [OF tm_id] tm_domain
      valid_StreamTestMatch_def toValidUTF8_valid StreamTestMatch_zero_def)

lemma member_key_tg: "StreamTagMatch_member ''key'' v t =
   (let (e, x) = decode_string v (Key t) in (e, t\<lparr>Key := x\<rparr>))"
  by (simp add: StreamTagMatch_member_def find_field_exact)

lemma member_value_tg: "StreamTagMatch_member ''value'' v t =
   (let (e, x) = decode_string v (Value t) in (e, t\<lparr>Value := x\<rparr>))"
  by (simp add: StreamTagMatch_member_def find_field_exact)

lemma tg_key: "decode_members StreamTagMatch_member (string_field ''key'' v) t =
   (None, if v = [] then t else t\<lparr>Key := toValidUTF8 v\<rparr>)"
  by (simp add: string_field_def member_key_tg first_error_def)

lemma tg_value: "decode_members StreamTagMatch_member (string_field ''value'' v) t =
   (None, if v = [] then t else t\<lparr>Value := toValidUTF8 v\<rparr>)"
  by (simp add: string_field_def member_value_tg first_error_def)

lemma tg_roundtrip:
  "valid_StreamTagMatch m \<Longrightarrow>
   decode_StreamTagMatch (marshal_StreamTagMatch m) StreamTagMatch_zero = (None, m)"
  by (simp add: marshal_StreamTagMatch_def decode_members_append_ok [OF tg_key] tg_value
      valid_StreamTagMatch_def toValidUTF8_valid StreamTagMatch_zero_def)

lemma tm_elements:
  "list_all valid_StreamTestMatch xs \<Longrightarrow>
   decode_elements decode_StreamTestMatch StreamTestMatch_zero (map marshal_StreamTestMatch xs) []
     = (None, xs)"
  by (induction xs) (simp_all add: tm_roundtrip first_error_def)

lemma tg_elements:
  "list_all valid_StreamTagMatch xs \<Longrightarrow>
   decode_elements decode_StreamTagMatch StreamTagMatch_zero (map marshal_StreamTagMatch xs) []
     = (None, xs)"
  by (induction xs) (simp_all add: tg_roundtrip first_error_def)

lemma st_id: "decode_members Stream_member (string_field ''id'' v) t =
   (None, t\<lparr>ID := (if v = [] then ID t else toValidUTF8 v)\<rparr>)"
  by (simp add: string_field_def Stream_member_def Stream_fields_def find_field_exact first_error_def)

lemma st_enabled: "decode_members Stream_member (bool_field ''enabled'' v) t =
   (None, t\<lparr>Enabled := (if v then True else Enabled t)\<rparr>)"
  by (simp add: bool_field_def Stream_member_def Stream_fields_def find_field_exact first_error_def)

lemma st_type: "decode_members Stream_member (string_field ''type'' v) t =
   (None, t\<lparr>Type := (if v = [] then Type t else toValidUTF8 v)\<rparr>)"
  by (simp add: string_field_def Stream_member_def Stream_fields_def find_field_exact first_error_def)

lemma st_endpointType: "decode_members Stream_member (string_field ''endpointType'' v) t =
   (None, t\<lparr>EndpointType := (if v = [] then EndpointType t else toValidUTF8 v)\<rparr>)"
  by (simp add: string_field_def Stream_member_def Stream_fields_def find_field_exact first_error_def)

lemma st_streamEndpointUrl:
  "decode_members Stream_member (string_field ''streamEndpointUrl'' v) t =
   (None, t\<lparr>StreamEndpointUrl := (if v = [] then StreamEndpointUrl t else toValidUTF8 v)\<rparr>)"
  by (simp add: string_field_def Stream_member_def Stream_fields_def find_field_exact first_error_def)

lemma st_dataModelVersion:
  "decode_members Stream_member (string_field ''dataModelVersion'' v) t =
   (None, t\<lparr>DataModelVersion := (if v = [] then DataModelVersion t else toValidUTF8 v)\<rparr>)"
  by (simp add: string_field_def Stream_member_def Stream_fields_def find_field_exact first_error_def)

text \<open>A slice that is nil, with nothing behind it, takes the array as it is.\<close>

lemma st_testMatch:
  "list_all valid_StreamTestMatch xs \<Longrightarrow> TestMatch t = [] \<Longrightarrow> behind_TestMatch t = [] \<Longrightarrow>
   decode_members Stream_member (slice_field ''testMatch'' (map marshal_StreamTestMatch xs)) t =
   (None, t\<lparr>TestMatch := xs\<rparr>)"
  by (cases t)
     (simp add: slice_field_def Stream_member_def Stream_fields_def find_field_exact first_error_def
      tm_elements)

lemma st_tagMatch:
  "list_all valid_StreamTagMatch xs \<Longrightarrow> TagMatch t = [] \<Longrightarrow> behind_TagMatch t = [] \<Longrightarrow>
   decode_members Stream_member (slice_field ''tagMatch'' (map marshal_StreamTagMatch xs)) t =
   (None, t\<lparr>TagMatch := xs\<rparr>)"
  by (cases t)
     (simp add: slice_field_def Stream_member_def Stream_fields_def find_field_exact first_error_def
      tg_elements)

lemma decode_marshal_Stream_target:
  assumes "valid_Stream s"
  shows "decode_Stream (marshal_Stream s) (fresh Stream_zero) = (None, fresh s)"
proof -
  from assms have tm: "list_all valid_StreamTestMatch (TestMatch s)"
    and tg: "list_all valid_StreamTagMatch (TagMatch s)"
    by (simp_all add: valid_Stream_def)
  show ?thesis
    using assms
    by (cases s)
       (simp add: marshal_Stream_def
        decode_members_append_ok [OF st_id]
        decode_members_append_ok [OF st_enabled]
        decode_members_append_ok [OF st_type]
        decode_members_append_ok [OF st_endpointType]
        decode_members_append_ok [OF st_streamEndpointUrl]
        decode_members_append_ok [OF st_dataModelVersion]
        decode_members_append_ok [OF st_testMatch]
        st_tagMatch
        valid_Stream_def toValidUTF8_valid Stream_zero_def fresh_def Stream.extend_def)
qed

lemma truncate_fresh: "Stream.truncate (fresh s) = s"
  by (cases s) (simp add: fresh_def Stream.extend_def Stream.truncate_def)

lemma decode_marshal_Stream:
  assumes "valid_Stream s"
  shows "Decode (Document (marshal_Stream s)) Stream_zero = (None, s)"
  by (simp add: decode_marshal_Stream_target [OF assms] truncate_fresh)

lemma Decode_stream_doc:
  "Decode (Document stream_doc) Stream_zero = (None, Stream_zero\<lparr>ID := ''s-123'', Enabled := True\<rparr>)"
  by (simp add: Stream_member_def Stream_fields_def find_field_exact first_error_def stream_doc_def
      Stream_zero_def fresh_def Stream.extend_def Stream.truncate_def)

text \<open>
  A repeated key decodes its second array into the elements of the first: a member the
  second array does not mention keeps its earlier value, and an element cut off by a
  shorter array comes back when a later array is longer.
\<close>

lemma repeated_key_merges:
  "Decode (Document (JObject
      [(''testMatch'', JArray [JObject [(''id'', JString ''a''), (''domain'', JString ''x'')]]),
       (''testMatch'', JArray [JObject [(''domain'', JString ''y'')]])])) Stream_zero
   = (None, Stream_zero\<lparr>TestMatch := [\<lparr>TestMatch_ID = ''a'', Domain = ''y''\<rparr>]\<rparr>)"
  by (simp add: Stream_member_def Stream_fields_def find_field_exact first_error_def
      StreamTestMatch_member_def Stream_zero_def StreamTestMatch_zero_def
      fresh_def Stream.extend_def Stream.truncate_def)

lemma truncated_element_returns:
  "Decode (Document (JObject
      [(''tagMatch'', JArray [JObject [(''key'', JString ''a'')], JObject [(''key'', JString ''b'')]]),
       (''tagMatch'', JArray [JObject []]),
       (''tagMatch'', JArray [JObject [], JObject [(''value'', JString ''v'')]])])) Stream_zero
   = (None, Stream_zero\<lparr>TagMatch := [\<lparr>Key = ''a'', Value = []\<rparr>, \<lparr>Key = ''b'', Value = ''v''\<rparr>]\<rparr>)"
  by (simp add: Stream_member_def Stream_fields_def find_field_exact first_error_def
      StreamTagMatch_member_def Stream_zero_def StreamTagMatch_zero_def
      fresh_def Stream.extend_def Stream.truncate_def)

declare Decode.simps [simp del]

lemma keys_Stream:
  "map fst (members (marshal_Stream s)) =
     (if ID s = [] then [] else [''id''])
     @ (if Enabled s then [''enabled''] else [])
     @ (if Type s = [] then [] else [''type''])
     @ (if EndpointType s = [] then [] else [''endpointType''])
     @ (if StreamEndpointUrl s = [] then [] else [''streamEndpointUrl''])
     @ (if DataModelVersion s = [] then [] else [''dataModelVersion''])
     @ (if TestMatch s = [] then [] else [''testMatch''])
     @ (if TagMatch s = [] then [] else [''tagMatch''])"
  by (simp add: marshal_Stream_def string_field_def bool_field_def slice_field_def)

lemma keys_StreamTestMatch:
  "map fst (members (marshal_StreamTestMatch m)) =
     (if TestMatch_ID m = [] then [] else [''id'']) @ (if Domain m = [] then [] else [''domain''])"
  by (simp add: marshal_StreamTestMatch_def string_field_def)

lemma keys_StreamTagMatch:
  "map fst (members (marshal_StreamTagMatch m)) =
     (if Key m = [] then [] else [''key'']) @ (if Value m = [] then [] else [''value''])"
  by (simp add: marshal_StreamTagMatch_def string_field_def)

lemma testMatch_array:
  "map_of (members (marshal_Stream s)) ''testMatch'' =
     (if TestMatch s = [] then None
      else Some (JArray (map marshal_StreamTestMatch (TestMatch s))))"
  by (simp add: marshal_Stream_def string_field_def bool_field_def slice_field_def)

lemma tagMatch_array:
  "map_of (members (marshal_Stream s)) ''tagMatch'' =
     (if TagMatch s = [] then None
      else Some (JArray (map marshal_StreamTagMatch (TagMatch s))))"
  by (simp add: marshal_Stream_def string_field_def bool_field_def slice_field_def)

text \<open>
  C9, as stated, fails: a string that is not valid UTF-8 does not survive the encoder.
  The stream whose ID is the single byte FF comes back with another ID (U+FFFD).
\<close>

theorem roundtrip_invalid_utf8_counterexample:
  "ID (snd (Decode (Document (marshal_Stream (Stream_zero\<lparr>ID := [CHR 0xFF]\<rparr>))) Stream_zero))
     \<noteq> [CHR 0xFF]"
  by (simp add: marshal_Stream_def string_field_def bool_field_def slice_field_def Stream_zero_def
      Stream_member_def Stream_fields_def find_field_exact first_error_def toValidUTF8_def
      rune_width.simps RuneError_def Decode.simps fresh_def Stream.extend_def Stream.truncate_def)

text \<open>
  C9, amended: for every stream whose strings are valid UTF-8, marshalling succeeds and
  decoding the document into a zero stream succeeds and gives the stream back. A field
  is written exactly when it is not at its zero value (the empty string, false, the
  empty sequence), so an omitted field decodes as its zero value; the names written are
  id, enabled, type, endpointType, streamEndpointUrl, dataModelVersion, testMatch and
  tagMatch, in this order; testMatch is the array of the encoded elements, each with the
  names id and domain, tagMatch likewise with key and value.
\<close>

theorem Stream_json_roundtrip:
  assumes "valid_Stream s"
  shows "json_Marshal (StreamValue s) = Inr (marshal_Stream s)
    \<and> Decode (Document (marshal_Stream s)) Stream_zero = (None, s)
    \<and> map fst (members (marshal_Stream s)) =
        (if ID s = [] then [] else [''id''])
        @ (if Enabled s then [''enabled''] else [])
        @ (if Type s = [] then [] else [''type''])
        @ (if EndpointType s = [] then [] else [''endpointType''])
        @ (if StreamEndpointUrl s = [] then [] else [''streamEndpointUrl''])
        @ (if DataModelVersion s = [] then [] else [''dataModelVersion''])
        @ (if TestMatch s = [] then [] else [''testMatch''])
        @ (if TagMatch s = [] then [] else [''tagMatch''])
    \<and> map_of (members (marshal_Stream s)) ''testMatch'' =
        (if TestMatch s = [] then None
         else Some (JArray (map marshal_StreamTestMatch (TestMatch s))))
    \<and> map_of (members (marshal_Stream s)) ''tagMatch'' =
        (if TagMatch s = [] then None
         else Some (JArray (map marshal_StreamTagMatch (TagMatch s))))
    \<and> (\<forall>m. map fst (members (marshal_StreamTestMatch m)) =
          (if TestMatch_ID m = [] then [] else [''id''])
          @ (if Domain m = [] then [] else [''domain'']))
    \<and> (\<forall>m. map fst (members (marshal_StreamTagMatch m)) =
          (if Key m = [] then [] else [''key''])
          @ (if Value m = [] then [] else [''value'']))"
  using decode_marshal_Stream [OF assms]
  by (simp only: json_Marshal.simps keys_Stream keys_StreamTestMatch
      keys_StreamTagMatch testMatch_array tagMatch_array) simp

theorem Stream_json_roundtrip_witness:
  "valid_Stream (Stream_zero\<lparr>ID := ''s-123'', Enabled := True, Type := ''otlp'',
      TestMatch := [\<lparr>TestMatch_ID = ''t1'', Domain = ''example.com''\<rparr>]\<rparr>)
   \<and> Decode (Document (marshal_Stream (Stream_zero\<lparr>ID := ''s-123'', Enabled := True,
        Type := ''otlp'', TestMatch := [\<lparr>TestMatch_ID = ''t1'', Domain = ''example.com''\<rparr>]\<rparr>)))
        Stream_zero
      = (None, Stream_zero\<lparr>ID := ''s-123'', Enabled := True, Type := ''otlp'',
          TestMatch := [\<lparr>TestMatch_ID = ''t1'', Domain = ''example.com''\<rparr>]\<rparr>)"
proof -
  have v: "valid_Stream (Stream_zero\<lparr>ID := ''s-123'', Enabled := True, Type := ''otlp'',
      TestMatch := [\<lparr>TestMatch_ID = ''t1'', Domain = ''example.com''\<rparr>]\<rparr>)"
    by (simp add: valid_Stream_def Stream_zero_def ValidString_def valid_StreamTestMatch_def
        rune_width.simps)
  from Stream_json_roundtrip [OF v] v show ?thesis by blast
qed

subsection \<open>The request cycle\<close>

declare digits.simps [simp del]

lemma Itoa_200: "Itoa 200 = ''200''"
  by code_simp

lemma Itoa_201: "Itoa 201 = ''201''"
  by code_simp

lemma Itoa_204: "Itoa 204 = ''204''"
  by code_simp

lemma Itoa_404: "Itoa 404 = ''404''"
  by code_simp

lemma json_Marshal_total: "\<exists>data. json_Marshal payload = Inr data"
  by (cases payload) simp_all


lemma closes_append: "closes (xs @ ys) = closes xs + closes ys"
  by (simp add: closes_def)

lemma decodes_append: "decodes (xs @ ys) = decodes xs + decodes ys"
  by (simp add: decodes_def)

text \<open>What \<open>do\<close> returns once the request is built and the HTTP client has answered.\<close>

lemma do_sent:
  assumes ok: "NewRequest_ok env method (APIEndpoint cl @ path @ ''.json'')"
    and data: "json_Marshal payload = Inr data"
    and tr: "Do env (HTTPClient cl) (request_of cl method (APIEndpoint cl @ path @ ''.json'') data)
               (server w) = (r, s1)"
  shows "do env cl method path payload w =
     (let w2 = \<lparr>server = s1, events = events w @ (if Limiter cl \<noteq> None then [Waited] else [])
                 @ [Sent (request_of cl method (APIEndpoint cl @ path @ ''.json'') data)]\<rparr>
      in case r of
           Inl err \<Rightarrow> (Err (TransportError err), w2)
         | Inr resp \<Rightarrow>
             if StatusCode resp < 200 \<or> 299 < StatusCode resp
             then (Err (ErrorString (''Failed call API endpoint. HTTP response code: ''
                           @ Itoa (StatusCode resp) @ ''.'')), w2)
             else (Ok resp, w2))"
  using ok data tr
  by (cases r) (auto simp: do_def emit_def Let_def)

lemma do_events:
  assumes "json_Marshal payload = Inr data"
  shows "events (snd (do env cl method path payload w)) =
     events w @ (if Limiter cl \<noteq> None then [Waited] else [])
       @ (if NewRequest_ok env method (APIEndpoint cl @ path @ ''.json'')
          then [Sent (request_of cl method (APIEndpoint cl @ path @ ''.json'') data)] else [])"
  using assms
  by (auto simp: do_def emit_def Let_def split: prod.splits sum.splits)

lemma do_closes_decodes:
  "closes (events (snd (do env cl method path payload w))) = closes (events w)
   \<and> decodes (events (snd (do env cl method path payload w))) = decodes (events w)"
proof -
  obtain data where d: "json_Marshal payload = Inr data"
    using json_Marshal_total by blast
  show ?thesis
    by (simp add: do_events [OF d] closes_append decodes_append) (simp add: closes_def decodes_def)
qed








lemma request_of_fields:
  "Method (request_of cl method endpoint data) = (if method = [] then ''GET'' else method)"
  "URL (request_of cl method endpoint data) =
     (if AccountGroupID cl = [] then url_Parse endpoint
      else (url_Parse endpoint)\<lparr>RawQuery :=
             Values_Encode (Values_Add ''aid'' (AccountGroupID cl) (Query (url_Parse endpoint)))\<rparr>)"
  "Header (request_of cl method endpoint data) =
     [''accept'' \<mapsto> ''application/json'', ''authorization'' \<mapsto> ''Bearer '' @ AuthToken cl,
      ''content-type'' \<mapsto> ''application/json'', ''user-agent'' \<mapsto> UserAgent cl]"
  "ReqBody (request_of cl method endpoint data) = Document data"
  by (simp_all add: request_of_def NewRequest_def Header_Set_def Let_def)

lemma decodeJSON_events:
  "decodeJSON resp t w = (Decode (Body resp) t, w\<lparr>events := events w @ [Decoded, Closed]\<rparr>)"
  by (simp add: decodeJSON_def emit_def Let_def)

text \<open>The same against the fixture server.\<close>

lemma mock_ok: "NewRequest_ok (mock_env code body) method url"
  by (simp add: mock_env_def)

lemma mock_Do: "Do (mock_env code body) hc req sv = (Inr \<lparr>StatusCode = code, Body = body\<rparr>, sv)"
  by (simp add: mock_env_def)

lemma do_mock:
  "do (mock_env code body) cl method path payload world0 =
     (let w2 = \<lparr>server = (), events = (if Limiter cl \<noteq> None then [Waited] else [])
                 @ [Sent (request_of cl method (APIEndpoint cl @ path @ ''.json'')
                      (case payload of Nil \<Rightarrow> JNull | StreamValue s \<Rightarrow> marshal_Stream s))]\<rparr>
      in if code < 200 \<or> 299 < code
         then (Err (ErrorString (''Failed call API endpoint. HTTP response code: ''
                           @ Itoa code @ ''.'')), w2)
         else (Ok \<lparr>StatusCode = code, Body = body\<rparr>, w2))"
  by (cases payload) (simp_all add: do_def mock_env_def world0_def emit_def Let_def)

lemma do_mock_fst:
  "fst (do (mock_env code body) cl method path payload world0) =
     (if code < 200 \<or> 299 < code
      then Err (ErrorString (''Failed call API endpoint. HTTP response code: '' @ Itoa code @ ''.''))
      else Ok \<lparr>StatusCode = code, Body = body\<rparr>)"
  by (simp add: do_mock Let_def)

lemma pair_fst_snd: "fst x = r \<Longrightarrow> x = (r, snd x)"
  by auto

lemma Get_404:
  "GetStream (mock_env 404 body) client7 ''s-123'' world0 =
    (Err (ErrorString ''Failed call API endpoint. HTTP response code: 404.''),
     \<lparr>server = (), events = [Waited, Sent (request_of client7 ''GET''
         ''https://api.thousandeyes.com/v7/stream/s-123.json'' JNull)]\<rparr>)"
  by (simp add: GetStream_def do_mock Let_def Itoa_404) (simp add: client7_def)

lemma Get_200:
  "GetStream (mock_env 200 (Document stream_doc)) client7 ''s-123'' world0 =
    (Ok (Stream_zero\<lparr>ID := ''s-123'', Enabled := True\<rparr>),
     \<lparr>server = (), events = [Waited, Sent (request_of client7 ''GET''
         ''https://api.thousandeyes.com/v7/stream/s-123.json'' JNull), Decoded, Closed]\<rparr>)"
  by (simp add: GetStream_def do_mock Let_def decodeJSON_events Decode_stream_doc)
     (simp add: client7_def)

text \<open>
  C2: once the request is built and the HTTP client has answered with a response, \<open>do\<close>
  fails with the error that carries the status code exactly when the code is below 200
  or above 299, it fails at all exactly then, and for a code from 200 to 299 it returns
  the response.
\<close>

theorem do_status_range:
  assumes ok: "NewRequest_ok env method (APIEndpoint cl @ path @ ''.json'')"
    and data: "json_Marshal payload = Inr data"
    and tr: "Do env (HTTPClient cl) (request_of cl method (APIEndpoint cl @ path @ ''.json'') data)
               (server w) = (Inr resp, s1)"
  shows "(fst (do env cl method path payload w) =
            Err (ErrorString (''Failed call API endpoint. HTTP response code: ''
                   @ Itoa (StatusCode resp) @ ''.''))
          \<longleftrightarrow> StatusCode resp < 200 \<or> 299 < StatusCode resp)
       \<and> ((\<exists>err. fst (do env cl method path payload w) = Err err)
          \<longleftrightarrow> StatusCode resp < 200 \<or> 299 < StatusCode resp)
       \<and> (200 \<le> StatusCode resp \<and> StatusCode resp \<le> 299
          \<longrightarrow> fst (do env cl method path payload w) = Ok resp)"
  by (auto simp: do_sent [OF ok data tr] Let_def)

theorem do_status_range_witness:
  "NewRequest_ok (mock_env 404 Empty) ''GET'' (APIEndpoint client7 @ ''/stream/s-123'' @ ''.json'')
   \<and> json_Marshal Nil = Inr JNull
   \<and> Do (mock_env 404 Empty) (HTTPClient client7)
        (request_of client7 ''GET'' (APIEndpoint client7 @ ''/stream/s-123'' @ ''.json'') JNull)
        (server world0) = (Inr \<lparr>StatusCode = 404, Body = Empty\<rparr>, ())
   \<and> fst (do (mock_env 404 Empty) client7 ''GET'' ''/stream/s-123'' Nil world0)
       = Err (ErrorString ''Failed call API endpoint. HTTP response code: 404.'')
   \<and> Do (mock_env 204 Empty) (HTTPClient client7)
        (request_of client7 ''GET'' (APIEndpoint client7 @ ''/stream/s-123'' @ ''.json'') JNull)
        (server world0) = (Inr \<lparr>StatusCode = 204, Body = Empty\<rparr>, ())
   \<and> fst (do (mock_env 204 Empty) client7 ''GET'' ''/stream/s-123'' Nil world0)
       = Ok \<lparr>StatusCode = 204, Body = Empty\<rparr>"
proof -
  have d: "json_Marshal Nil = Inr JNull" by simp
  have t4: "Do (mock_env 404 Empty) (HTTPClient client7)
        (request_of client7 ''GET'' (APIEndpoint client7 @ ''/stream/s-123'' @ ''.json'') JNull)
        (server world0) = (Inr \<lparr>StatusCode = 404, Body = Empty\<rparr>, ())"
    by (simp add: mock_Do)
  have t2: "Do (mock_env 204 Empty) (HTTPClient client7)
        (request_of client7 ''GET'' (APIEndpoint client7 @ ''/stream/s-123'' @ ''.json'') JNull)
        (server world0) = (Inr \<lparr>StatusCode = 204, Body = Empty\<rparr>, ())"
    by (simp add: mock_Do)
  have r4: "fst (do (mock_env 404 Empty) client7 ''GET'' ''/stream/s-123'' Nil world0)
       = Err (ErrorString ''Failed call API endpoint. HTTP response code: 404.'')"
    using do_status_range [OF mock_ok d t4] by (simp add: Itoa_404)
  have r2: "fst (do (mock_env 204 Empty) client7 ''GET'' ''/stream/s-123'' Nil world0)
       = Ok \<lparr>StatusCode = 204, Body = Empty\<rparr>"
    using do_status_range [OF mock_ok d t2] by simp
  from d t4 t2 r4 r2 mock_ok [of 404 Empty] show ?thesis by blast
qed




subsection \<open>The CRUD operations\<close>

text \<open>
  C1: whenever \<open>do\<close> has accepted a response, each operation fails with its own error,
  which names the operation and the status code, if the code is not the expected one
  (201 for Create, 200 for Get and Update, 204 for Delete); with the expected code no
  such error is returned (Create, Get and Update go on to decode, Delete succeeds). In
  particular a response with status 200 to the request of \<open>CreateStream\<close> is accepted by
  \<open>do\<close> and rejected by \<open>CreateStream\<close>.
\<close>

theorem two_tier_status_check:
  "(\<forall>resp w1. do env cl ''POST'' ''/stream'' (StreamValue s) w = (Ok resp, w1) \<longrightarrow>
      (StatusCode resp \<noteq> 201 \<longrightarrow>
         CreateStream env cl s w =
           (Err (ErrorString (''failed to create stream, response code ''
                   @ Itoa (StatusCode resp))), w1))
      \<and> (StatusCode resp = 201 \<longrightarrow> (\<forall>msg. fst (CreateStream env cl s w) \<noteq> Err (ErrorString msg))))
   \<and> (\<forall>resp w1. do env cl ''GET'' (''/stream/'' @ id') Nil w = (Ok resp, w1) \<longrightarrow>
      (StatusCode resp \<noteq> 200 \<longrightarrow>
         GetStream env cl id' w =
           (Err (ErrorString (''failed to get stream, response code ''
                   @ Itoa (StatusCode resp))), w1))
      \<and> (StatusCode resp = 200 \<longrightarrow> (\<forall>msg. fst (GetStream env cl id' w) \<noteq> Err (ErrorString msg))))
   \<and> (\<forall>resp w1. do env cl ''PUT'' (''/stream/'' @ id') (StreamValue s) w = (Ok resp, w1) \<longrightarrow>
      (StatusCode resp \<noteq> 200 \<longrightarrow>
         UpdateStream env cl id' s w =
           (Err (ErrorString (''failed to update stream, response code ''
                   @ Itoa (StatusCode resp))), w1))
      \<and> (StatusCode resp = 200 \<longrightarrow> (\<forall>msg. fst (UpdateStream env cl id' s w) \<noteq> Err (ErrorString msg))))
   \<and> (\<forall>resp w1. do env cl ''DELETE'' (''/stream/'' @ id') Nil w = (Ok resp, w1) \<longrightarrow>
      (StatusCode resp \<noteq> 204 \<longrightarrow>
         DeleteStream env cl id' w =
           (Err (ErrorString (''failed to delete stream, response code ''
                   @ Itoa (StatusCode resp))), w1))
      \<and> (StatusCode resp = 204 \<longrightarrow> DeleteStream env cl id' w = (Ok (), w1)))
   \<and> (\<forall>resp s1.
        NewRequest_ok env ''POST'' (APIEndpoint cl @ ''/stream'' @ ''.json'')
        \<and> Do env (HTTPClient cl)
             (request_of cl ''POST'' (APIEndpoint cl @ ''/stream'' @ ''.json'') (marshal_Stream s))
             (server w) = (Inr resp, s1)
        \<and> StatusCode resp = 200 \<longrightarrow>
          fst (do env cl ''POST'' ''/stream'' (StreamValue s) w) = Ok resp
          \<and> fst (CreateStream env cl s w) =
              Err (ErrorString ''failed to create stream, response code 200''))"
proof -
  have last: "fst (do env cl ''POST'' ''/stream'' (StreamValue s) w) = Ok resp
          \<and> fst (CreateStream env cl s w) =
              Err (ErrorString ''failed to create stream, response code 200'')"
    if ok: "NewRequest_ok env ''POST'' (APIEndpoint cl @ ''/stream'' @ ''.json'')"
      and tr: "Do env (HTTPClient cl)
             (request_of cl ''POST'' (APIEndpoint cl @ ''/stream'' @ ''.json'') (marshal_Stream s))
             (server w) = (Inr resp, s1)"
      and st: "StatusCode resp = 200" for resp s1
  proof -
    have d: "json_Marshal (StreamValue s) = Inr (marshal_Stream s)" by simp
    have D: "do env cl ''POST'' ''/stream'' (StreamValue s) w =
        (Ok resp, \<lparr>server = s1, events = events w @ (if Limiter cl \<noteq> None then [Waited] else [])
           @ [Sent (request_of cl ''POST'' (APIEndpoint cl @ ''/stream'' @ ''.json'') (marshal_Stream s))]\<rparr>)"
      using st by (simp only: do_sent [OF ok d tr] Let_def) simp
    show ?thesis
      using st by (simp only: CreateStream_def D) (simp add: Itoa_200)
  qed
  have ops: "(\<forall>resp w1. do env cl ''POST'' ''/stream'' (StreamValue s) w = (Ok resp, w1) \<longrightarrow>
      (StatusCode resp \<noteq> 201 \<longrightarrow>
         CreateStream env cl s w =
           (Err (ErrorString (''failed to create stream, response code ''
                   @ Itoa (StatusCode resp))), w1))
      \<and> (StatusCode resp = 201 \<longrightarrow> (\<forall>msg. fst (CreateStream env cl s w) \<noteq> Err (ErrorString msg))))
   \<and> (\<forall>resp w1. do env cl ''GET'' (''/stream/'' @ id') Nil w = (Ok resp, w1) \<longrightarrow>
      (StatusCode resp \<noteq> 200 \<longrightarrow>
         GetStream env cl id' w =
           (Err (ErrorString (''failed to get stream, response code ''
                   @ Itoa (StatusCode resp))), w1))
      \<and> (StatusCode resp = 200 \<longrightarrow> (\<forall>msg. fst (GetStream env cl id' w) \<noteq> Err (ErrorString msg))))
   \<and> (\<forall>resp w1. do env cl ''PUT'' (''/stream/'' @ id') (StreamValue s) w = (Ok resp, w1) \<longrightarrow>
      (StatusCode resp \<noteq> 200 \<longrightarrow>
         UpdateStream env cl id' s w =
           (Err (ErrorString (''failed to update stream, response code ''
                   @ Itoa (StatusCode resp))), w1))
      \<and> (StatusCode resp = 200 \<longrightarrow> (\<forall>msg. fst (UpdateStream env cl id' s w) \<noteq> Err (ErrorString msg))))
   \<and> (\<forall>resp w1. do env cl ''DELETE'' (''/stream/'' @ id') Nil w = (Ok resp, w1) \<longrightarrow>
      (StatusCode resp \<noteq> 204 \<longrightarrow>
         DeleteStream env cl id' w =
           (Err (ErrorString (''failed to delete stream, response code ''
                   @ Itoa (StatusCode resp))), w1))
      \<and> (StatusCode resp = 204 \<longrightarrow> DeleteStream env cl id' w = (Ok (), w1)))"
    by (auto simp: CreateStream_def GetStream_def UpdateStream_def DeleteStream_def
        split: prod.splits option.splits)
  from ops last show ?thesis by blast
qed

theorem two_tier_status_check_witness:
  "fst (do (mock_env 200 Empty) client7 ''POST'' ''/stream'' (StreamValue Stream_zero) world0)
     = Ok \<lparr>StatusCode = 200, Body = Empty\<rparr>
   \<and> fst (CreateStream (mock_env 200 Empty) client7 Stream_zero world0)
     = Err (ErrorString ''failed to create stream, response code 200'')
   \<and> fst (do (mock_env 204 Empty) client7 ''GET'' (''/stream/'' @ ''s-123'') Nil world0)
     = Ok \<lparr>StatusCode = 204, Body = Empty\<rparr>
   \<and> fst (GetStream (mock_env 204 Empty) client7 ''s-123'' world0)
     = Err (ErrorString ''failed to get stream, response code 204'')
   \<and> fst (do (mock_env 201 Empty) client7 ''PUT'' (''/stream/'' @ ''s-123'') (StreamValue Stream_zero) world0)
     = Ok \<lparr>StatusCode = 201, Body = Empty\<rparr>
   \<and> fst (UpdateStream (mock_env 201 Empty) client7 ''s-123'' Stream_zero world0)
     = Err (ErrorString ''failed to update stream, response code 201'')
   \<and> fst (do (mock_env 200 Empty) client7 ''DELETE'' (''/stream/'' @ ''s-123'') Nil world0)
     = Ok \<lparr>StatusCode = 200, Body = Empty\<rparr>
   \<and> fst (DeleteStream (mock_env 200 Empty) client7 ''s-123'' world0)
     = Err (ErrorString ''failed to delete stream, response code 200'')
   \<and> fst (do (mock_env 204 Empty) client7 ''DELETE'' (''/stream/'' @ ''s-123'') Nil world0)
     = Ok \<lparr>StatusCode = 204, Body = Empty\<rparr>
   \<and> fst (DeleteStream (mock_env 204 Empty) client7 ''s-123'' world0) = Ok ()"
proof -
  note c = two_tier_status_check [of "mock_env 200 Empty" client7 Stream_zero world0 "''s-123''"]
  note g = two_tier_status_check [of "mock_env 204 Empty" client7 Stream_zero world0 "''s-123''"]
  note u = two_tier_status_check [of "mock_env 201 Empty" client7 Stream_zero world0 "''s-123''"]
  have h1: "do (mock_env 200 Empty) client7 ''POST'' ''/stream'' (StreamValue Stream_zero) world0
      = (Ok \<lparr>StatusCode = 200, Body = Empty\<rparr>,
         snd (do (mock_env 200 Empty) client7 ''POST'' ''/stream'' (StreamValue Stream_zero) world0))"
    by (rule pair_fst_snd) (simp add: do_mock_fst)
  have h2: "do (mock_env 204 Empty) client7 ''GET'' (''/stream/'' @ ''s-123'') Nil world0
      = (Ok \<lparr>StatusCode = 204, Body = Empty\<rparr>,
         snd (do (mock_env 204 Empty) client7 ''GET'' (''/stream/'' @ ''s-123'') Nil world0))"
    by (rule pair_fst_snd) (simp add: do_mock_fst)
  have h3: "do (mock_env 201 Empty) client7 ''PUT'' (''/stream/'' @ ''s-123'') (StreamValue Stream_zero) world0
      = (Ok \<lparr>StatusCode = 201, Body = Empty\<rparr>,
         snd (do (mock_env 201 Empty) client7 ''PUT'' (''/stream/'' @ ''s-123'') (StreamValue Stream_zero) world0))"
    by (rule pair_fst_snd) (simp add: do_mock_fst)
  have h4: "do (mock_env 200 Empty) client7 ''DELETE'' (''/stream/'' @ ''s-123'') Nil world0
      = (Ok \<lparr>StatusCode = 200, Body = Empty\<rparr>,
         snd (do (mock_env 200 Empty) client7 ''DELETE'' (''/stream/'' @ ''s-123'') Nil world0))"
    by (rule pair_fst_snd) (simp add: do_mock_fst)
  have h5: "do (mock_env 204 Empty) client7 ''DELETE'' (''/stream/'' @ ''s-123'') Nil world0
      = (Ok \<lparr>StatusCode = 204, Body = Empty\<rparr>,
         snd (do (mock_env 204 Empty) client7 ''DELETE'' (''/stream/'' @ ''s-123'') Nil world0))"
    by (rule pair_fst_snd) (simp add: do_mock_fst)
  have r1: "fst (CreateStream (mock_env 200 Empty) client7 Stream_zero world0)
     = Err (ErrorString ''failed to create stream, response code 200'')"
    using c [THEN conjunct1, rule_format, OF h1] by (simp add: Itoa_200)
  have r2: "fst (GetStream (mock_env 204 Empty) client7 ''s-123'' world0)
     = Err (ErrorString ''failed to get stream, response code 204'')"
    using g [THEN conjunct2, THEN conjunct1, rule_format, OF h2] by (simp add: Itoa_204)
  have r3: "fst (UpdateStream (mock_env 201 Empty) client7 ''s-123'' Stream_zero world0)
     = Err (ErrorString ''failed to update stream, response code 201'')"
    using u [THEN conjunct2, THEN conjunct2, THEN conjunct1, rule_format, OF h3]
    by (simp add: Itoa_201)
  have r4: "fst (DeleteStream (mock_env 200 Empty) client7 ''s-123'' world0)
     = Err (ErrorString ''failed to delete stream, response code 200'')"
    using c [THEN conjunct2, THEN conjunct2, THEN conjunct2, THEN conjunct1, rule_format, OF h4]
    by (simp add: Itoa_200)
  have r5: "fst (DeleteStream (mock_env 204 Empty) client7 ''s-123'' world0) = Ok ()"
    using g [THEN conjunct2, THEN conjunct2, THEN conjunct2, THEN conjunct1, rule_format, OF h5]
    by simp
  have r0: "fst (do (mock_env 200 Empty) client7 ''POST'' ''/stream'' (StreamValue Stream_zero) world0)
       = Ok \<lparr>StatusCode = 200, Body = Empty\<rparr>
     \<and> fst (CreateStream (mock_env 200 Empty) client7 Stream_zero world0)
       = Err (ErrorString ''failed to create stream, response code 200'')"
    using c [THEN conjunct2, THEN conjunct2, THEN conjunct2, THEN conjunct2, rule_format,
        of "\<lparr>StatusCode = 200, Body = Empty\<rparr>" "()"]
    by (simp add: mock_ok mock_Do)
  from r0 r1 r2 r3 r4 r5 show ?thesis
    by (simp only: do_mock_fst) simp
qed


text \<open>
  When an operation reaches \<open>decodeJSON\<close>, the decoder runs once and the body is closed
  once, whether the decoder succeeds or fails; \<open>do\<close> itself never closes a body.
\<close>

lemma decodeJSON_closes_once:
  "closes (events (snd (decodeJSON resp t w))) = Suc (closes (events w))
   \<and> decodes (events (snd (decodeJSON resp t w))) = Suc (decodes (events w))
   \<and> fst (decodeJSON resp t w) = Decode (Body resp) t"
  by (simp add: decodeJSON_events closes_def decodes_def)

lemma GetStream_closes:
  "closes (events (snd (GetStream env cl id' w))) =
     closes (events w)
     + (case fst (do env cl ''GET'' (''/stream/'' @ id') Nil w) of
          Ok resp \<Rightarrow> if StatusCode resp = 200 then 1 else 0
        | _ \<Rightarrow> 0)"
proof -
  obtain r w1 where d: "do env cl ''GET'' (''/stream/'' @ id') Nil w = (r, w1)"
    by (cases "do env cl ''GET'' (''/stream/'' @ id') Nil w")
  have c: "closes (events w1) = closes (events w)"
    using do_closes_decodes [of env cl "''GET''" "''/stream/'' @ id'" Nil w]
    by (simp only: d snd_conv)
  show ?thesis
    unfolding GetStream_def d
    using c by (cases r) (auto simp: decodeJSON_events closes_append closes_def split: prod.splits option.splits)
qed

text \<open>
  C3 fails on the code: the body is closed by \<open>decodeJSON\<close> and nowhere else. A 404 to
  \<open>GetStream\<close> (rejected by \<open>do\<close>), a 200 to \<open>CreateStream\<close> (rejected by the
  operation) and a 204 to \<open>DeleteStream\<close> (success) each hand one request to the HTTP
  client, receive its response, and return without closing the body.
\<close>

theorem response_body_left_open:
  "sent (events (snd (GetStream (mock_env 404 (Document JNull)) client7 ''s-123'' world0)))
      = [request_of client7 ''GET'' ''https://api.thousandeyes.com/v7/stream/s-123.json'' JNull]
   \<and> fst (GetStream (mock_env 404 (Document JNull)) client7 ''s-123'' world0)
      = Err (ErrorString ''Failed call API endpoint. HTTP response code: 404.'')
   \<and> closes (events (snd (GetStream (mock_env 404 (Document JNull)) client7 ''s-123'' world0))) = 0
   \<and> fst (CreateStream (mock_env 200 (Document JNull)) client7 Stream_zero world0)
      = Err (ErrorString ''failed to create stream, response code 200'')
   \<and> closes (events (snd (CreateStream (mock_env 200 (Document JNull)) client7 Stream_zero world0))) = 0
   \<and> fst (DeleteStream (mock_env 204 Empty) client7 ''s-123'' world0) = Ok ()
   \<and> closes (events (snd (DeleteStream (mock_env 204 Empty) client7 ''s-123'' world0))) = 0
   \<and> closes (events (snd (GetStream (mock_env 200 (Document stream_doc)) client7 ''s-123'' world0))) = 1"
  by (simp add: Get_404 Get_200 closes_def CreateStream_def DeleteStream_def do_mock Let_def Itoa_200)

text \<open>
  C4 fails on the code: \<open>do\<close> marshals the payload without looking at it, and the
  marshalled nil is the document \<^verbatim>\<open>null\<close>. The requests of \<open>GetStream\<close> and
  \<open>DeleteStream\<close> carry that document as their body; the body is not empty.
\<close>

theorem nil_payload_request_body:
  "map ReqBody (sent (events (snd (GetStream (mock_env 200 (Document stream_doc)) client7 ''s-123'' world0))))
     = [Document JNull]
   \<and> map ReqBody (sent (events (snd (DeleteStream (mock_env 204 Empty) client7 ''s-123'' world0))))
     = [Document JNull]
   \<and> Document JNull \<noteq> Empty"
  by (simp add: Get_200 DeleteStream_def do_mock Let_def request_of_fields)

subsection \<open>The derived client\<close>

text \<open>
  Replacing \<^verbatim>\<open>v6\<close> by \<^verbatim>\<open>v7\<close> keeps the length and changes exactly the bytes \<^verbatim>\<open>6\<close> that
  follow a \<^verbatim>\<open>v\<close>: two occurrences of \<^verbatim>\<open>v6\<close> cannot overlap, so every occurrence is hit.
\<close>

lemma replace_v6_hit:
  "replace_from ''v6'' ''v7'' 0 (CHR ''v'' # CHR ''6'' # cs) =
     CHR ''v'' # CHR ''7'' # replace_from ''v6'' ''v7'' 0 cs"
  by simp

lemma replace_v6_miss:
  "\<not> (ch = CHR ''v'' \<and> take 1 cs = ''6'') \<Longrightarrow>
   replace_from ''v6'' ''v7'' 0 (ch # cs) = ch # replace_from ''v6'' ''v7'' 0 cs"
  by (cases cs) auto

lemma replace_v6_nth:
  "length (replace_from ''v6'' ''v7'' 0 s) = length s
   \<and> (\<forall>i < length s. replace_from ''v6'' ''v7'' 0 s ! i =
        (if 0 < i \<and> s ! (i - 1) = CHR ''v'' \<and> s ! i = CHR ''6'' then CHR ''7'' else s ! i))"
proof (induction "length s" arbitrary: s rule: less_induct)
  case less
  show ?case
  proof (cases s)
    case Nil
    then show ?thesis by simp
  next
    case (Cons ch cs)
    show ?thesis
    proof (cases "ch = CHR ''v'' \<and> take 1 cs = ''6''")
      case True
      then obtain rest where cs: "cs = CHR ''6'' # rest" by (cases cs) auto
      have s: "s = CHR ''v'' # CHR ''6'' # rest" using Cons True cs by simp
      have IH: "length (replace_from ''v6'' ''v7'' 0 rest) = length rest
         \<and> (\<forall>i < length rest. replace_from ''v6'' ''v7'' 0 rest ! i =
            (if 0 < i \<and> rest ! (i - 1) = CHR ''v'' \<and> rest ! i = CHR ''6'' then CHR ''7'' else rest ! i))"
        using less [of rest] s by simp
      have len: "length (replace_from ''v6'' ''v7'' 0 s) = length s"
        using IH by (simp only: s replace_v6_hit) simp
      have nth: "replace_from ''v6'' ''v7'' 0 s ! i =
        (if 0 < i \<and> s ! (i - 1) = CHR ''v'' \<and> s ! i = CHR ''6'' then CHR ''7'' else s ! i)"
        if "i < length s" for i
      proof -
        consider "i = 0" | "i = 1" | "i = 2" | j where "i = Suc (Suc (Suc j))"
          by (metis One_nat_def Suc_1 not0_implies_Suc)
        then show ?thesis
        proof cases
          case 1 then show ?thesis by (simp only: s replace_v6_hit) simp
        next
          case 2 then show ?thesis by (simp only: s replace_v6_hit) simp
        next
          case 3
          with that s have "0 < length rest" by simp
          with IH have "replace_from ''v6'' ''v7'' 0 rest ! 0 = rest ! 0" by simp
          with 3 show ?thesis by (simp only: s replace_v6_hit) (simp add: numeral_2_eq_2)
        next
          case 4
          with that s have "Suc j < length rest" by simp
          with IH have "replace_from ''v6'' ''v7'' 0 rest ! Suc j =
             (if rest ! j = CHR ''v'' \<and> rest ! Suc j = CHR ''6'' then CHR ''7'' else rest ! Suc j)"
            by simp
          with 4 show ?thesis by (simp only: s replace_v6_hit) simp
        qed
      qed
      from len nth show ?thesis by blast
    next
      case False
      have r: "replace_from ''v6'' ''v7'' 0 s = ch # replace_from ''v6'' ''v7'' 0 cs"
        using replace_v6_miss [OF False] Cons by simp
      have IH: "length (replace_from ''v6'' ''v7'' 0 cs) = length cs
         \<and> (\<forall>i < length cs. replace_from ''v6'' ''v7'' 0 cs ! i =
            (if 0 < i \<and> cs ! (i - 1) = CHR ''v'' \<and> cs ! i = CHR ''6'' then CHR ''7'' else cs ! i))"
        using less [of cs] Cons by simp
      have len: "length (replace_from ''v6'' ''v7'' 0 s) = length s"
        using IH r Cons by simp
      have nth: "replace_from ''v6'' ''v7'' 0 s ! i =
        (if 0 < i \<and> s ! (i - 1) = CHR ''v'' \<and> s ! i = CHR ''6'' then CHR ''7'' else s ! i)"
        if "i < length s" for i
      proof -
        consider "i = 0" | "i = 1" | j where "i = Suc (Suc j)"
          by (metis One_nat_def not0_implies_Suc)
        then show ?thesis
        proof cases
          case 1 then show ?thesis using r Cons by simp
        next
          case 2
          with that Cons have "0 < length cs" by simp
          with IH have "replace_from ''v6'' ''v7'' 0 cs ! 0 = cs ! 0" by simp
          moreover from False \<open>0 < length cs\<close> have "\<not> (ch = CHR ''v'' \<and> cs ! 0 = CHR ''6'')"
            by (cases cs) auto
          ultimately show ?thesis using 2 r Cons by auto
        next
          case 3
          with that Cons have "Suc j < length cs" by simp
          with IH have "replace_from ''v6'' ''v7'' 0 cs ! Suc j =
             (if cs ! j = CHR ''v'' \<and> cs ! Suc j = CHR ''6'' then CHR ''7'' else cs ! Suc j)"
            by simp
          with 3 show ?thesis using r Cons by simp
        qed
      qed
      from len nth show ?thesis by blast
    qed
  qed
qed


lemma ReplaceAll_v6_length: "length (ReplaceAll s ''v6'' ''v7'') = length s"
  using replace_v6_nth [of s] by (simp add: ReplaceAll_def)

lemma ReplaceAll_v6_nth:
  "i < length s \<Longrightarrow>
   ReplaceAll s ''v6'' ''v7'' ! i =
     (if 0 < i \<and> s ! (i - 1) = CHR ''v'' \<and> s ! i = CHR ''6'' then CHR ''7'' else s ! i)"
  using replace_v6_nth [of s] by (simp add: ReplaceAll_def)

lemma ReplaceAll_example:
  "ReplaceAll ''https://api.thousandeyes.com/v6'' ''v6'' ''v7'' = ''https://api.thousandeyes.com/v7''"
  by (simp add: ReplaceAll_def)

lemma ReplaceAll_host_and_path:
  "ReplaceAll ''https://v6.example.com/v6/'' ''v6'' ''v7'' = ''https://v7.example.com/v7/''"
  by (simp add: ReplaceAll_def)

lemma NewStreamClientFrom_Some:
  "v6 < length h \<Longrightarrow>
   NewStreamClientFrom h v6 =
     Some (\<lparr>c = length h\<rparr>,
           h @ [(h ! v6)\<lparr>APIEndpoint := ReplaceAll (APIEndpoint (h ! v6)) ''v6'' ''v7''\<rparr>])"
  by (simp add: NewStreamClientFrom_def Let_def nth_append)

lemma NewStreamClientFrom_nil: "length h \<le> v6 \<Longrightarrow> NewStreamClientFrom h v6 = None"
  by (simp add: NewStreamClientFrom_def)

lemma new6: "NewStreamClientFrom [client6] 0 = Some (\<lparr>c = 1\<rparr>, [client6, client7])"
  by (simp add: NewStreamClientFrom_Some) (simp add: client6_def client7_def ReplaceAll_example)

text \<open>
  C10: for every v6 client in the store, \<open>NewStreamClientFrom\<close> returns a new client
  whose endpoint is the endpoint of the v6 client with every occurrence of \<^verbatim>\<open>v6\<close>
  replaced by \<^verbatim>\<open>v7\<close>, wherever it occurs, and whose other fields are copied. The new
  client lives at a fresh address: the v6 client and every other client of the store
  are unchanged, and a later write to the endpoint of either client does not reach the
  other.
\<close>

theorem NewStreamClientFrom_copy:
  assumes "v6 < length h"
  shows "\<exists>sc h1. NewStreamClientFrom h v6 = Some (sc, h1)
    \<and> APIEndpoint (h1 ! c sc) = ReplaceAll (APIEndpoint (h ! v6)) ''v6'' ''v7''
    \<and> length (APIEndpoint (h1 ! c sc)) = length (APIEndpoint (h ! v6))
    \<and> (\<forall>i < length (APIEndpoint (h ! v6)).
          APIEndpoint (h1 ! c sc) ! i =
            (if 0 < i \<and> APIEndpoint (h ! v6) ! (i - 1) = CHR ''v'' \<and> APIEndpoint (h ! v6) ! i = CHR ''6''
             then CHR ''7'' else APIEndpoint (h ! v6) ! i))
    \<and> h1 ! c sc = (h ! v6)\<lparr>APIEndpoint := APIEndpoint (h1 ! c sc)\<rparr>
    \<and> c sc \<noteq> v6
    \<and> length h1 = Suc (length h)
    \<and> (\<forall>p < length h. h1 ! p = h ! p)
    \<and> (\<forall>e. (h1[c sc := (h1 ! c sc)\<lparr>APIEndpoint := e\<rparr>]) ! v6 = h ! v6)
    \<and> (\<forall>e. (h1[v6 := (h1 ! v6)\<lparr>APIEndpoint := e\<rparr>]) ! c sc = h1 ! c sc)"
  using assms
  by (simp add: NewStreamClientFrom_Some nth_append nth_list_update ReplaceAll_v6_length
      ReplaceAll_v6_nth)

theorem NewStreamClientFrom_copy_witness:
  "(0::nat) < length [client6\<lparr>APIEndpoint := ''https://v6.example.com/v6/''\<rparr>]
   \<and> (\<exists>sc h1. NewStreamClientFrom [client6\<lparr>APIEndpoint := ''https://v6.example.com/v6/''\<rparr>] 0
                 = Some (sc, h1)
         \<and> APIEndpoint (h1 ! c sc) = ''https://v7.example.com/v7/''
         \<and> h1 ! 0 = client6\<lparr>APIEndpoint := ''https://v6.example.com/v6/''\<rparr>
         \<and> c sc \<noteq> 0)"
proof -
  have l: "(0::nat) < length [client6\<lparr>APIEndpoint := ''https://v6.example.com/v6/''\<rparr>]"
    by simp
  from NewStreamClientFrom_copy [OF l] obtain sc h1 where
    "NewStreamClientFrom [client6\<lparr>APIEndpoint := ''https://v6.example.com/v6/''\<rparr>] 0 = Some (sc, h1)"
    "APIEndpoint (h1 ! c sc) =
       ReplaceAll (APIEndpoint ([client6\<lparr>APIEndpoint := ''https://v6.example.com/v6/''\<rparr>] ! 0))
         ''v6'' ''v7''"
    "c sc \<noteq> 0"
    "\<forall>p < length [client6\<lparr>APIEndpoint := ''https://v6.example.com/v6/''\<rparr>].
        h1 ! p = [client6\<lparr>APIEndpoint := ''https://v6.example.com/v6/''\<rparr>] ! p"
    by blast
  then show ?thesis
    by (simp add: ReplaceAll_host_and_path)
qed

subsection \<open>The resource handlers\<close>

lemma do_rest:
  "do rest_env cl method path payload w =
     (Ok \<lparr>StatusCode = (if method = ''POST'' then 201 else 200), Body = Document stream_doc\<rparr>,
      \<lparr>server = (), events = events w @ (if Limiter cl \<noteq> None then [Waited] else [])
         @ [Sent (request_of cl method (APIEndpoint cl @ path @ ''.json'')
              (case payload of Nil \<Rightarrow> JNull | StreamValue s \<Rightarrow> marshal_Stream s))]\<rparr>)"
  by (cases payload) (simp_all add: do_def rest_env_def emit_def Let_def request_of_fields)

lemma Create_rest:
  "CreateStream rest_env client7 s w =
     (Ok (Stream_zero\<lparr>ID := ''s-123'', Enabled := True\<rparr>),
      \<lparr>server = (), events = events w @ [Waited, Sent (request_of client7 ''POST''
            ''https://api.thousandeyes.com/v7/stream.json'' (marshal_Stream s)), Decoded, Closed]\<rparr>)"
  unfolding CreateStream_def do_rest
  by (simp add: decodeJSON_events Decode_stream_doc client7_def)

lemma Get_rest:
  "GetStream rest_env client7 ''s-123'' w =
     (Ok (Stream_zero\<lparr>ID := ''s-123'', Enabled := True\<rparr>),
      \<lparr>server = (), events = events w @ [Waited, Sent (request_of client7 ''GET''
            ''https://api.thousandeyes.com/v7/stream/s-123.json'' JNull), Decoded, Closed]\<rparr>)"
  unfolding GetStream_def do_rest
  by (simp add: decodeJSON_events Decode_stream_doc client7_def)

lemma Delete_mock:
  "DeleteStream (mock_env code body) client7 ''s-123'' world0 =
     (if code < 200 \<or> 299 < code
      then Err (ErrorString (''Failed call API endpoint. HTTP response code: '' @ Itoa code @ ''.''))
      else if code \<noteq> 204
      then Err (ErrorString (''failed to delete stream, response code '' @ Itoa code))
      else Ok (),
      \<lparr>server = (), events = [Waited, Sent (request_of client7 ''DELETE''
            ''https://api.thousandeyes.com/v7/stream/s-123.json'' JNull)]\<rparr>)"
  by (simp add: DeleteStream_def do_mock Let_def) (simp add: client7_def)

lemma derived_client: "[client6, client7] ! c \<lparr>c = 1\<rparr> = client7"
  by simp

text \<open>
  C6: with the client derived, when \<open>GetStream\<close> on the stored ID returns an error, of
  whatever kind, the Read handler returns that error and the representation with its
  ID cleared and nothing else changed; when \<open>GetStream\<close> returns a stream, the handler
  returns what \<open>ResourceRead\<close> makes of the untouched representation and that stream, so
  the ID stays as stored where \<open>ResourceRead\<close> keeps it.
\<close>

theorem Read_handler:
  assumes "NewStreamClientFrom h m = Some (sc, h1)"
  shows "(\<forall>err w1. GetStream env (h1 ! c sc) (rd_Id d) w = (Err err, w1) \<longrightarrow>
            resourceStreamRead env sv h m d w = (Err err, SetId [] d, w1)
            \<and> rd_Id (SetId [] d) = [] \<and> attrs (SetId [] d) = attrs d)
       \<and> (\<forall>remote w1. GetStream env (h1 ! c sc) (rd_Id d) w = (Ok remote, w1) \<longrightarrow>
            resourceStreamRead env sv h m d w =
              (fst (ResourceRead sv d remote), snd (ResourceRead sv d remote), w1)
            \<and> (rd_Id (snd (ResourceRead sv d remote)) = rd_Id d \<longrightarrow>
                 rd_Id (fst (snd (resourceStreamRead env sv h m d w))) = rd_Id d))"
  using assms
  by (auto simp: resourceStreamRead_def SetId_def split: prod.splits)

theorem Read_handler_witness:
  "NewStreamClientFrom [client6] 0 = Some (\<lparr>c = 1\<rparr>, [client6, client7])
   \<and> fst (GetStream (mock_env 404 Empty) client7 ''s-123'' world0)
       = Err (ErrorString ''Failed call API endpoint. HTTP response code: 404.'')
   \<and> fst (resourceStreamRead (mock_env 404 Empty) services0 [client6] 0 data0 world0)
       = Err (ErrorString ''Failed call API endpoint. HTTP response code: 404.'')
   \<and> fst (snd (resourceStreamRead (mock_env 404 Empty) services0 [client6] 0 data0 world0))
       = \<lparr>rd_Id = [], attrs = Stream_zero\<rparr>
   \<and> fst (GetStream rest_env client7 ''s-123'' world0)
       = Ok (Stream_zero\<lparr>ID := ''s-123'', Enabled := True\<rparr>)
   \<and> fst (resourceStreamRead rest_env services0 [client6] 0 data0 world0) = Ok ()
   \<and> fst (snd (resourceStreamRead rest_env services0 [client6] 0 data0 world0))
       = \<lparr>rd_Id = ''s-123'', attrs = Stream_zero\<lparr>ID := ''s-123'', Enabled := True\<rparr>\<rparr>"
proof -
  have g: "rd_Id data0 = ''s-123''"
    by (simp add: data0_def)
  note R1 = Read_handler [OF new6, of "mock_env 404 Empty" data0 world0 services0]
  note R2 = Read_handler [OF new6, of rest_env data0 world0 services0]
  show ?thesis
    using R1 R2 new6
    by (simp add: g derived_client Get_404 Get_rest SetId_def services0_def data0_def)
qed

text \<open>
  C7: with the client derived, the Create handler calls \<open>CreateStream\<close> with the stream
  that \<open>buildStreamStruct\<close> makes of the representation. When that returns a stream, the
  handler stores its ID in the representation and its result is the result of the Read
  handler on that representation; when it returns an error, the handler returns the
  error and the representation as it was.
\<close>

theorem Create_handler:
  assumes "NewStreamClientFrom h m = Some (sc, h1)"
  shows "(\<forall>remote w1.
            CreateStream env (h1 ! c sc) (buildStreamStruct sv d) w = (Ok remote, w1) \<longrightarrow>
              resourceStreamCreate env sv h m d w =
                resourceStreamRead env sv h1 m (SetId (ID remote) d) w1
              \<and> rd_Id (SetId (ID remote) d) = ID remote
              \<and> attrs (SetId (ID remote) d) = attrs d)
       \<and> (\<forall>err w1.
            CreateStream env (h1 ! c sc) (buildStreamStruct sv d) w = (Err err, w1) \<longrightarrow>
              resourceStreamCreate env sv h m d w = (Err err, d, w1))
       \<and> buildStreamStruct sv d = ResourceBuildStruct sv d"
  using assms
  by (auto simp: resourceStreamCreate_def buildStreamStruct_def SetId_def)

lemma new67:
  "NewStreamClientFrom [client6, client7] 0 = Some (\<lparr>c = 2\<rparr>, [client6, client7, client7])"
  by (simp add: NewStreamClientFrom_Some) (simp add: client6_def client7_def ReplaceAll_example)

lemma Read_rest:
  "rd_Id d = ''s-123'' \<Longrightarrow>
   resourceStreamRead rest_env services0 [client6, client7] 0 d w =
     (Ok (), d\<lparr>attrs := Stream_zero\<lparr>ID := ''s-123'', Enabled := True\<rparr>\<rparr>,
      \<lparr>server = (), events = events w @ [Waited, Sent (request_of client7 ''GET''
            ''https://api.thousandeyes.com/v7/stream/s-123.json'' JNull), Decoded, Closed]\<rparr>)"
  by (simp add: resourceStreamRead_def new67 Get_rest services0_def)

theorem Create_handler_witness:
  "NewStreamClientFrom [client6] 0 = Some (\<lparr>c = 1\<rparr>, [client6, client7])
   \<and> fst (CreateStream rest_env client7
          (buildStreamStruct services0 \<lparr>rd_Id = [], attrs = Stream_zero\<lparr>Enabled := True\<rparr>\<rparr>) world0)
       = Ok (Stream_zero\<lparr>ID := ''s-123'', Enabled := True\<rparr>)
   \<and> fst (resourceStreamCreate rest_env services0 [client6] 0
          \<lparr>rd_Id = [], attrs = Stream_zero\<lparr>Enabled := True\<rparr>\<rparr> world0) = Ok ()
   \<and> fst (snd (resourceStreamCreate rest_env services0 [client6] 0
          \<lparr>rd_Id = [], attrs = Stream_zero\<lparr>Enabled := True\<rparr>\<rparr> world0))
       = \<lparr>rd_Id = ''s-123'', attrs = Stream_zero\<lparr>ID := ''s-123'', Enabled := True\<rparr>\<rparr>
   \<and> fst (CreateStream (mock_env 200 Empty) client7
          (buildStreamStruct services0 \<lparr>rd_Id = [], attrs = Stream_zero\<lparr>Enabled := True\<rparr>\<rparr>) world0)
       = Err (ErrorString ''failed to create stream, response code 200'')
   \<and> fst (resourceStreamCreate (mock_env 200 Empty) services0 [client6] 0
          \<lparr>rd_Id = [], attrs = Stream_zero\<lparr>Enabled := True\<rparr>\<rparr> world0)
       = Err (ErrorString ''failed to create stream, response code 200'')
   \<and> fst (snd (resourceStreamCreate (mock_env 200 Empty) services0 [client6] 0
          \<lparr>rd_Id = [], attrs = Stream_zero\<lparr>Enabled := True\<rparr>\<rparr> world0))
       = \<lparr>rd_Id = [], attrs = Stream_zero\<lparr>Enabled := True\<rparr>\<rparr>"
proof -
  let ?d = "\<lparr>rd_Id = [], attrs = Stream_zero\<lparr>Enabled := True\<rparr>\<rparr>"
  have badf: "fst (CreateStream (mock_env 200 Empty) client7 (buildStreamStruct services0 ?d) world0)
      = Err (ErrorString ''failed to create stream, response code 200'')"
    by (simp add: CreateStream_def do_mock Let_def Itoa_200)
  note bad = pair_fst_snd [OF badf]
  note C1 = Create_handler [OF new6, of rest_env services0 ?d world0]
  note C2 = Create_handler [OF new6, of "mock_env 200 Empty" services0 ?d world0,
      THEN conjunct2, THEN conjunct1, rule_format, unfolded derived_client, OF bad]
  have ok: "resourceStreamCreate rest_env services0 [client6] 0 ?d world0 =
      resourceStreamRead rest_env services0 [client6, client7] 0
        \<lparr>rd_Id = ''s-123'', attrs = Stream_zero\<lparr>Enabled := True\<rparr>\<rparr>
        \<lparr>server = (), events = events world0 @ [Waited, Sent (request_of client7 ''POST''
            ''https://api.thousandeyes.com/v7/stream.json''
            (marshal_Stream (buildStreamStruct services0 ?d))), Decoded, Closed]\<rparr>"
    using C1 by (simp add: derived_client Create_rest SetId_def)
  have r: "rd_Id \<lparr>rd_Id = ''s-123'', attrs = Stream_zero\<lparr>Enabled := True\<rparr>\<rparr> = ''s-123''"
    by simp
  have good: "fst (resourceStreamCreate rest_env services0 [client6] 0 ?d world0) = Ok ()
     \<and> fst (snd (resourceStreamCreate rest_env services0 [client6] 0 ?d world0))
       = \<lparr>rd_Id = ''s-123'', attrs = Stream_zero\<lparr>ID := ''s-123'', Enabled := True\<rparr>\<rparr>"
    by (simp only: ok Read_rest [OF r]) simp
  have cr: "fst (CreateStream rest_env client7 (buildStreamStruct services0 ?d) world0)
       = Ok (Stream_zero\<lparr>ID := ''s-123'', Enabled := True\<rparr>)"
    by (simp add: Create_rest)
  from new6 good cr badf C2 show ?thesis
    by simp
qed

text \<open>
  C8: for every client and ID, when the HTTP client answers the DELETE request with
  status 204, \<open>DeleteStream\<close> returns success and the decoder has not run. With the
  client derived, when \<open>DeleteStream\<close> on the stored ID returns success the Delete
  handler returns success and the representation with its ID cleared; when it returns
  an error the handler returns the error and the representation as it was.
\<close>

theorem Delete_handler:
  "(NewRequest_ok env ''DELETE'' (APIEndpoint cl @ (''/stream/'' @ id') @ ''.json'')
      \<and> Do env (HTTPClient cl)
           (request_of cl ''DELETE'' (APIEndpoint cl @ (''/stream/'' @ id') @ ''.json'') JNull)
           (server w) = (Inr resp, s1)
      \<and> StatusCode resp = 204 \<longrightarrow>
        fst (DeleteStream env cl id' w) = Ok ()
        \<and> decodes (events (snd (DeleteStream env cl id' w))) = decodes (events w))
   \<and> (NewStreamClientFrom h m = Some (sc, h1) \<longrightarrow>
        (\<forall>w1. DeleteStream env (h1 ! c sc) (rd_Id d) w = (Ok (), w1) \<longrightarrow>
           resourceStreamDelete env h m d w = (Ok (), SetId [] d, w1)
           \<and> rd_Id (SetId [] d) = [])
        \<and> (\<forall>err w1. DeleteStream env (h1 ! c sc) (rd_Id d) w = (Err err, w1) \<longrightarrow>
           resourceStreamDelete env h m d w = (Err err, d, w1)))"
proof -
  have A: "fst (DeleteStream env cl id' w) = Ok ()
        \<and> decodes (events (snd (DeleteStream env cl id' w))) = decodes (events w)"
    if ok: "NewRequest_ok env ''DELETE'' (APIEndpoint cl @ (''/stream/'' @ id') @ ''.json'')"
      and tr: "Do env (HTTPClient cl)
           (request_of cl ''DELETE'' (APIEndpoint cl @ (''/stream/'' @ id') @ ''.json'') JNull)
           (server w) = (Inr resp, s1)"
      and st: "StatusCode resp = 204"
  proof -
    have d: "json_Marshal Nil = Inr JNull" by simp
    have D: "do env cl ''DELETE'' (''/stream/'' @ id') Nil w =
        (Ok resp, \<lparr>server = s1, events = events w @ (if Limiter cl \<noteq> None then [Waited] else [])
           @ [Sent (request_of cl ''DELETE'' (APIEndpoint cl @ (''/stream/'' @ id') @ ''.json'') JNull)]\<rparr>)"
      using st by (simp only: do_sent [OF ok d tr] Let_def) simp
    show ?thesis
      using st by (simp only: DeleteStream_def D) (simp add: decodes_def)
  qed
  have B: "resourceStreamDelete env h m d w = (Ok (), SetId [] d, w1) \<and> rd_Id (SetId [] d) = []"
    if "NewStreamClientFrom h m = Some (sc, h1)"
      "DeleteStream env (h1 ! c sc) (rd_Id d) w = (Ok (), w1)" for w1
    using that by (simp add: resourceStreamDelete_def SetId_def)
  have C: "resourceStreamDelete env h m d w = (Err err, d, w1)"
    if "NewStreamClientFrom h m = Some (sc, h1)"
      "DeleteStream env (h1 ! c sc) (rd_Id d) w = (Err err, w1)" for err w1
    using that by (simp add: resourceStreamDelete_def)
  from A B C show ?thesis by blast
qed

theorem Delete_handler_witness:
  "Do (mock_env 204 Empty) (HTTPClient client7)
       (request_of client7 ''DELETE'' (APIEndpoint client7 @ (''/stream/'' @ ''s-123'') @ ''.json'') JNull)
       (server world0) = (Inr \<lparr>StatusCode = 204, Body = Empty\<rparr>, ())
   \<and> fst (DeleteStream (mock_env 204 Empty) client7 ''s-123'' world0) = Ok ()
   \<and> decodes (events (snd (DeleteStream (mock_env 204 Empty) client7 ''s-123'' world0))) = 0
   \<and> NewStreamClientFrom [client6] 0 = Some (\<lparr>c = 1\<rparr>, [client6, client7])
   \<and> fst (resourceStreamDelete (mock_env 204 Empty) [client6] 0 data0 world0) = Ok ()
   \<and> fst (snd (resourceStreamDelete (mock_env 204 Empty) [client6] 0 data0 world0))
       = \<lparr>rd_Id = [], attrs = Stream_zero\<rparr>
   \<and> fst (DeleteStream (mock_env 404 Empty) client7 ''s-123'' world0)
       = Err (ErrorString ''Failed call API endpoint. HTTP response code: 404.'')
   \<and> fst (resourceStreamDelete (mock_env 404 Empty) [client6] 0 data0 world0)
       = Err (ErrorString ''Failed call API endpoint. HTTP response code: 404.'')
   \<and> fst (snd (resourceStreamDelete (mock_env 404 Empty) [client6] 0 data0 world0)) = data0"
proof -
  have g: "rd_Id data0 = ''s-123''"
    by (simp add: data0_def)
  have w0: "decodes (events world0) = 0"
    by (simp add: world0_def decodes_def)
  have t: "Do (mock_env 204 Empty) (HTTPClient client7)
       (request_of client7 ''DELETE'' (APIEndpoint client7 @ (''/stream/'' @ ''s-123'') @ ''.json'') JNull)
       (server world0) = (Inr \<lparr>StatusCode = 204, Body = Empty\<rparr>, ())"
    by (simp add: mock_Do)
  note D = Delete_handler [of "mock_env 204 Empty" client7 "''s-123''" world0
      "\<lparr>StatusCode = 204, Body = Empty\<rparr>" "()" "[client6]" 0 "\<lparr>c = 1\<rparr>" "[client6, client7]" data0]
  note E = Delete_handler [of "mock_env 404 Empty" client7 "''s-123''" world0
      "\<lparr>StatusCode = 204, Body = Empty\<rparr>" "()" "[client6]" 0 "\<lparr>c = 1\<rparr>" "[client6, client7]" data0]
  have a: "fst (DeleteStream (mock_env 204 Empty) client7 ''s-123'' world0) = Ok ()
     \<and> decodes (events (snd (DeleteStream (mock_env 204 Empty) client7 ''s-123'' world0))) = 0"
    using D [THEN conjunct1] t by (simp add: mock_ok w0)
  have b: "resourceStreamDelete (mock_env 204 Empty) [client6] 0 data0 world0
      = (Ok (), SetId [] data0, snd (DeleteStream (mock_env 204 Empty) client7 ''s-123'' world0))"
    using D [THEN conjunct2, rule_format, OF new6, THEN conjunct1, rule_format,
        of "snd (DeleteStream (mock_env 204 Empty) client7 ''s-123'' world0)"]
    by (simp add: g derived_client Delete_mock)
  have e: "resourceStreamDelete (mock_env 404 Empty) [client6] 0 data0 world0
      = (Err (ErrorString ''Failed call API endpoint. HTTP response code: 404.''), data0,
         snd (DeleteStream (mock_env 404 Empty) client7 ''s-123'' world0))"
    using E [THEN conjunct2, rule_format, OF new6, THEN conjunct2, rule_format,
        of "ErrorString ''Failed call API endpoint. HTTP response code: 404.''"
           "snd (DeleteStream (mock_env 404 Empty) client7 ''s-123'' world0)"]
    by (simp add: g derived_client Delete_mock Itoa_404)
  from a b e t new6 show ?thesis
    by (simp add: SetId_def data0_def Delete_mock Itoa_404)
qed

end
